theory Spec2Isabelle
  imports Main
begin

section \<open>JavaScript values and errors\<close>

text \<open>
  Values that arrive in a request body or come out of \<^verbatim>\<open>JSON.parse\<close>.
\<close>

datatype json =
    JNull
  | JBool bool
  | JNum int
  | JStr string
  | JArr "json list"
  | JObj "(string \<times> json) list"

text \<open>
  A thrown error object: its \<^verbatim>\<open>name\<close>, its \<^verbatim>\<open>message\<close> and, for the errors
  of the image host, its \<^verbatim>\<open>http_code\<close>.
\<close>

datatype js_error = Error (err_name: string) (err_message: string) (http_code: "nat option")

definition new_Error :: "string \<Rightarrow> js_error" where
  "new_Error m = Error ''Error'' m None"

text \<open>\<^verbatim>\<open>a || b\<close> on optional strings: the empty string and \<^verbatim>\<open>undefined\<close> are falsy.\<close>

fun js_or :: "string option \<Rightarrow> string option \<Rightarrow> string option" where
  "js_or None b = b"
| "js_or (Some s) b = (if s = [] then b else Some s)"

text \<open>
  \<^verbatim>\<open>s.trim()\<close> and \<^verbatim>\<open>s.toLowerCase()\<close>, on ASCII: the white space is the space
  and the control characters 9 to 13, the letters are A to Z. The email paths of
  both schemas declare \<^verbatim>\<open>lowercase: true, trim: true\<close>; mongoose applies these
  setters to the value a document is built from and to the value of a query.
\<close>

definition is_space :: "char \<Rightarrow> bool" where
  "is_space c = (c \<in> set [CHR '' '', CHR 0x09, CHR 0x0A, CHR 0x0B, CHR 0x0C, CHR 0x0D])"

definition js_trim :: "string \<Rightarrow> string" where
  "js_trim s = rev (dropWhile is_space (rev (dropWhile is_space s)))"

definition lower_char :: "char \<Rightarrow> char" where
  "lower_char c =
     (case map_of (zip ''ABCDEFGHIJKLMNOPQRSTUVWXYZ'' ''abcdefghijklmnopqrstuvwxyz'') c of
        None \<Rightarrow> c
      | Some l \<Rightarrow> l)"

definition toLowerCase :: "string \<Rightarrow> string" where
  "toLowerCase s = map lower_char s"

definition email_setters :: "string \<Rightarrow> string" where
  "email_setters e = js_trim (toLowerCase e)"

text \<open>\<^verbatim>\<open>xs.join(sep)\<close> on an array of strings.\<close>

fun join :: "string \<Rightarrow> string list \<Rightarrow> string" where
  "join sep [] = []"
| "join sep [x] = x"
| "join sep (x # y # ys) = x @ sep @ join sep (y # ys)"

section \<open>Session tokens (the jsonwebtoken calls)\<close>

text \<open>
  The claims object handed to \<^verbatim>\<open>jwt.sign\<close>. User tokens carry \<^verbatim>\<open>userId\<close>,
  \<^verbatim>\<open>role\<close>, \<^verbatim>\<open>email\<close> and, for the pending second factor, \<^verbatim>\<open>requires2FA\<close>;
  student tokens carry \<^verbatim>\<open>studentId\<close> and \<^verbatim>\<open>role\<close>. A field that is not set is
  \<^verbatim>\<open>undefined\<close>, here \<open>None\<close>.
\<close>

record claims =
  userId :: "string option"
  studentId :: "string option"
  role :: "string option"
  email :: "string option"
  requires2FA :: "bool option"

text \<open>
  What \<^verbatim>\<open>jwt.verify\<close> returns: the claims with the issue time and the expiry
  (seconds) that \<^verbatim>\<open>jwt.sign\<close> added.
\<close>

record decoded = claims +
  iat :: nat
  exp :: "nat option"

text \<open>
  An inbound token is either a string that is not a well-formed signed token
  (\<open>Malformed\<close>, the empty string included) or a payload signed under some key.
  Signatures are symbolic: a token verifies under the key it was signed with and
  under no other.
\<close>

datatype jwt = Malformed string | Signed decoded string

text \<open>\<^verbatim>\<open>jwt.sign(claims, key, { expiresIn })\<close> at time \<open>now\<close>, \<open>ttl\<close> in seconds.\<close>

definition jwt_sign :: "claims \<Rightarrow> string \<Rightarrow> nat \<Rightarrow> nat \<Rightarrow> jwt" where
  "jwt_sign c key ttl now =
     Signed \<lparr> userId = userId c, studentId = studentId c, role = role c, email = email c,
              requires2FA = requires2FA c, iat = now, exp = Some (now + ttl) \<rparr> key"

text \<open>
  \<^verbatim>\<open>jwt.verify(token, key)\<close> at time \<open>now\<close>: structure and signature first
  (\<^verbatim>\<open>JsonWebTokenError\<close>), then the expiry (\<^verbatim>\<open>TokenExpiredError\<close> once
  \<open>now \<ge> exp\<close>).
\<close>

definition jwt_verify :: "jwt \<Rightarrow> string \<Rightarrow> nat \<Rightarrow> js_error + decoded" where
  "jwt_verify t key now =
     (case t of
        Malformed s \<Rightarrow> Inl (Error ''JsonWebTokenError'' ''jwt malformed'' None)
      | Signed d k \<Rightarrow>
          if k \<noteq> key then Inl (Error ''JsonWebTokenError'' ''invalid signature'' None)
          else (case exp d of
                  None \<Rightarrow> Inr d
                | Some e \<Rightarrow>
                    if e \<le> now then Inl (Error ''TokenExpiredError'' ''jwt expired'' None)
                    else Inr d))"

text \<open>\<^verbatim>\<open>process.env.JWT_SECRET || '121212'\<close>: unset and empty both fall back.\<close>

definition signing_key :: "string option \<Rightarrow> string" where
  "signing_key JWT_SECRET =
     (case JWT_SECRET of None \<Rightarrow> ''121212'' | Some s \<Rightarrow> if s = [] then ''121212'' else s)"

text \<open>The two lifetimes the routes pass as \<^verbatim>\<open>expiresIn\<close>: \<^verbatim>\<open>'24h'\<close> and \<^verbatim>\<open>'5m'\<close>.\<close>

definition ttl_24h :: nat where
  "ttl_24h = 86400"

definition ttl_5m :: nat where
  "ttl_5m = 300"

section \<open>Authorization gates (middleware/auth.mjs, middleware/roleAuth.mjs)\<close>

text \<open>
  The identity a gate attaches to the request as \<^verbatim>\<open>req.user\<close>.
\<close>

record req_user =
  user_id :: "string option"
  user_role :: "string option"
  user_email :: "string option"

text \<open>
  A response as far as the gates and the token checks build it: the HTTP status,
  the \<^verbatim>\<open>message\<close> field and, where the handler adds it, the \<^verbatim>\<open>error\<close> field.
\<close>

record reply =
  status :: nat
  message :: string
  error :: "string option"

definition json_message :: "nat \<Rightarrow> string \<Rightarrow> reply" where
  "json_message code m = \<lparr> status = code, message = m, error = None \<rparr>"

text \<open>A gate either answers the request itself or calls \<^verbatim>\<open>next()\<close> with \<^verbatim>\<open>req.user\<close> set.\<close>

datatype gate = Respond reply | Next req_user

text \<open>
  The token of a request is \<open>None\<close> when the Authorization header (or the body
  field) is absent, otherwise the token it carries: the gates take the header's
  value with \<^verbatim>\<open>Bearer \<close> removed, the user routes what follows the first space.
  The test \<^verbatim>\<open>!token\<close> holds for an absent token and for an empty one;
  \<open>token_given\<close> gives the token that passes it.
\<close>

definition token_given :: "jwt option \<Rightarrow> jwt option" where
  "token_given header =
     (case header of None \<Rightarrow> None | Some t \<Rightarrow> if t = Malformed [] then None else Some t)"

definition attach :: "decoded \<Rightarrow> req_user" where
  "attach d = \<lparr> user_id = js_or (userId d) (studentId d), user_role = role d,
                 user_email = email d \<rparr>"

definition isAuthenticated :: "string option \<Rightarrow> nat \<Rightarrow> jwt option \<Rightarrow> gate" where
  "isAuthenticated JWT_SECRET now header =
     (case token_given header of
        None \<Rightarrow> Respond (json_message 401 ''Authentication required'')
      | Some t \<Rightarrow>
          (case jwt_verify t (signing_key JWT_SECRET) now of
              Inl e \<Rightarrow> Respond (json_message 401 ''Invalid token'')
            | Inr d \<Rightarrow> Next (attach d)))"

definition isTeacher :: "string option \<Rightarrow> nat \<Rightarrow> jwt option \<Rightarrow> gate" where
  "isTeacher JWT_SECRET now header =
     (case token_given header of
        None \<Rightarrow> Respond (json_message 401 ''Authentication required'')
      | Some t \<Rightarrow>
          (case jwt_verify t (signing_key JWT_SECRET) now of
              Inl e \<Rightarrow> Respond (json_message 401 ''Invalid token'')
            | Inr d \<Rightarrow>
                if role d \<noteq> Some ''teacher''
                then Respond (json_message 403 ''Teacher access required'')
                else Next (attach d)))"

definition isAdmin :: "string option \<Rightarrow> nat \<Rightarrow> jwt option \<Rightarrow> gate" where
  "isAdmin JWT_SECRET now header =
     (case token_given header of
        None \<Rightarrow> Respond (json_message 401 ''Authentication required'')
      | Some t \<Rightarrow>
          (case jwt_verify t (signing_key JWT_SECRET) now of
              Inl e \<Rightarrow> Respond (json_message 401 ''Invalid token'')
            | Inr d \<Rightarrow>
                if role d \<noteq> Some ''admin''
                then Respond (json_message 403 ''Admin access required'')
                else Next (attach d)))"

text \<open>\<^verbatim>\<open>roles.includes(decoded.role)\<close>: an absent role is in no list of role names.\<close>

definition roles_include :: "string list \<Rightarrow> string option \<Rightarrow> bool" where
  "roles_include roles r = (case r of None \<Rightarrow> False | Some x \<Rightarrow> x \<in> set roles)"

definition checkRole :: "string list \<Rightarrow> string option \<Rightarrow> nat \<Rightarrow> jwt option \<Rightarrow> gate" where
  "checkRole roles JWT_SECRET now header =
     (case token_given header of
        None \<Rightarrow> Respond (json_message 401 ''Authentication required'')
      | Some t \<Rightarrow>
          (case jwt_verify t (signing_key JWT_SECRET) now of
              Inl e \<Rightarrow>
                if err_name e = ''JsonWebTokenError'' then Respond (json_message 401 ''Invalid token'')
                else if err_name e = ''TokenExpiredError'' then Respond (json_message 401 ''Token expired'')
                else Respond (json_message 500 ''Internal server error'')
            | Inr d \<Rightarrow>
                if \<not> roles_include roles (role d)
                then Respond (json_message 403
                       (''Access denied. Required role: '' @ join '' or '' roles))
                else Next (attach d)))"

definition adminOnly :: "string option \<Rightarrow> nat \<Rightarrow> jwt option \<Rightarrow> gate" where
  "adminOnly = checkRole [''admin'']"

definition maintenanceOfficeOnly :: "string option \<Rightarrow> nat \<Rightarrow> jwt option \<Rightarrow> gate" where
  "maintenanceOfficeOnly = checkRole [''maintenance_office'']"

definition adminOrMaintenance :: "string option \<Rightarrow> nat \<Rightarrow> jwt option \<Rightarrow> gate" where
  "adminOrMaintenance = checkRole [''admin'', ''maintenance_office'']"

section \<open>Stored documents (models/User.mjs, models/Student.mjs)\<close>

text \<open>
  A user document with the fields the routes read and write. Structured fields
  (\<^verbatim>\<open>expertise\<close>, \<^verbatim>\<open>location\<close>, \<^verbatim>\<open>languages\<close>) keep the JSON value they were
  given; \<open>None\<close> is \<^verbatim>\<open>undefined\<close>.
\<close>

record user =
  u_id :: string
  u_firstName :: string
  u_lastName :: string
  u_email :: string
  u_password :: string
  u_cnic :: string
  u_phoneNumber :: string
  u_dateOfBirth :: string
  u_expertise :: "json option"
  u_profilePicture :: string
  u_location :: "json option"
  u_languages :: "json option"
  u_qualification :: string
  u_role :: string
  u_isVerified :: bool
  u_twoFactorSecret :: "string option"
  u_twoFactorEnabled :: bool

text \<open>An entry of a student's \<^verbatim>\<open>enrolledCourses\<close>.\<close>

record enrolment =
  courseId :: json
  enrollmentDate :: nat
  enrolment_status :: string

record student =
  s_id :: string
  s_firstName :: string
  s_lastName :: string
  s_email :: string
  s_password :: string
  s_cnic :: string
  s_phoneNumber :: string
  s_dateOfBirth :: string
  s_gender :: string
  s_address :: "json option"
  s_guardianName :: string
  s_guardianPhone :: string
  s_guardianRelation :: string
  s_enrolledCourses :: "enrolment list"
  s_profilePicture :: string
  s_status :: string
  s_rollId :: "string option"

text \<open>\<^verbatim>\<open>studentSchema.methods.canAccessAccount\<close>: \<^verbatim>\<open>['Enrolled'].includes(this.status)\<close>.\<close>

definition canAccessAccount :: "student \<Rightarrow> bool" where
  "canAccessAccount s = (s_status s \<in> set [''Enrolled''])"

text \<open>The collections of the document store, and what the routes wrote to the console.\<close>

record state =
  users :: "user list"
  students :: "student list"
  console :: "string list"

text \<open>The file multer leaves in \<^verbatim>\<open>req.file\<close>.\<close>

record upload_file =
  buffer :: "string option"
  mimetype :: string

section \<open>External collaborators\<close>

text \<open>
  What the routes call outside the repository, as functions of the call's
  arguments: the clock (seconds), \<^verbatim>\<open>JSON.parse\<close> (an error when it throws), bcrypt,
  \<^verbatim>\<open>speakeasy.totp.verify\<close> with the window of 6 steps, the image host's
  \<^verbatim>\<open>uploader.upload\<close> per folder (the \<^verbatim>\<open>secure_url\<close> of its result, or the error
  it throws), the identifier a new document gets, what the document store answers
  to a save (validation and unique indexes), \<^verbatim>\<open>Course.find\<close> with \<^verbatim>\<open>$in\<close> (the
  number of courses found), the draws of \<^verbatim>\<open>Math.random\<close> for roll ids, and the
  fetch-and-upload of \<^verbatim>\<open>compressImage\<close>.
\<close>

record world =
  clock :: nat
  JSON_parse :: "string \<Rightarrow> js_error + json"
  bcrypt_hash :: "string \<Rightarrow> string"
  bcrypt_compare :: "string \<Rightarrow> string \<Rightarrow> bool"
  totp_verify :: "string option \<Rightarrow> string \<Rightarrow> js_error + bool"
  cloudinary_upload :: "string \<Rightarrow> upload_file \<Rightarrow> js_error + string option"
  new_ObjectId :: string
  user_save_error :: "user \<Rightarrow> js_error option"
  student_validate_error :: "student \<Rightarrow> js_error option"
  student_insert_error :: "student \<Rightarrow> js_error option"
  Course_find :: "json \<Rightarrow> js_error + nat"
  rollId_draws :: "string list"
  compress_upload :: "string \<Rightarrow> js_error + string"

text \<open>
  The collaborators of the ID-card block of the student registration: laying out
  the PDF (the jsPDF constructor and the text calls), the QR code, adding it to the
  document, the PDF output, and the mail transport.
\<close>

record mail =
  mail_to :: string
  mail_subject :: string
  mail_attachment :: string

record idcard_world =
  pdf_layout :: "student \<Rightarrow> js_error option"
  QRCode_toDataURL :: "string \<Rightarrow> js_error + string"
  pdf_addImage :: "string \<Rightarrow> js_error option"
  pdf_output :: "js_error + string"
  createTransport :: "js_error option"
  transporter_verify :: "js_error option"
  transporter_sendMail :: "mail \<Rightarrow> js_error option"

section \<open>Responses\<close>

record user_view =
  uv_id :: string
  uv_firstName :: string
  uv_lastName :: string
  uv_email :: string
  uv_cnic :: string
  uv_phoneNumber :: string
  uv_dateOfBirth :: string
  uv_expertise :: "json option"
  uv_profilePicture :: string
  uv_location :: "json option"
  uv_languages :: "json option"
  uv_qualification :: string
  uv_role :: string
  uv_isVerified :: bool

definition user_view :: "user \<Rightarrow> user_view" where
  "user_view u =
     \<lparr> uv_id = u_id u, uv_firstName = u_firstName u, uv_lastName = u_lastName u,
       uv_email = u_email u, uv_cnic = u_cnic u, uv_phoneNumber = u_phoneNumber u,
       uv_dateOfBirth = u_dateOfBirth u, uv_expertise = u_expertise u,
       uv_profilePicture = u_profilePicture u, uv_location = u_location u,
       uv_languages = u_languages u, uv_qualification = u_qualification u,
       uv_role = u_role u, uv_isVerified = u_isVerified u \<rparr>"

text \<open>The \<^verbatim>\<open>student\<close> object of the registration response.\<close>

record student_view =
  sv_id :: string
  sv_firstName :: string
  sv_lastName :: string
  sv_email :: string
  sv_cnic :: string
  sv_phoneNumber :: string
  sv_gender :: string
  sv_address :: "json option"
  sv_guardianName :: string
  sv_guardianPhone :: string
  sv_guardianRelation :: string
  sv_status :: string
  sv_profilePicture :: string
  sv_rollId :: "string option"

definition student_view :: "student \<Rightarrow> student_view" where
  "student_view s =
     \<lparr> sv_id = s_id s, sv_firstName = s_firstName s, sv_lastName = s_lastName s,
       sv_email = s_email s, sv_cnic = s_cnic s, sv_phoneNumber = s_phoneNumber s,
       sv_gender = s_gender s, sv_address = s_address s,
       sv_guardianName = s_guardianName s, sv_guardianPhone = s_guardianPhone s,
       sv_guardianRelation = s_guardianRelation s, sv_status = s_status s,
       sv_profilePicture = s_profilePicture s, sv_rollId = s_rollId s \<rparr>"

text \<open>The \<^verbatim>\<open>student\<close> object of the login response.\<close>

record student_session =
  ss_id :: string
  ss_firstName :: string
  ss_lastName :: string
  ss_email :: string
  ss_status :: string
  ss_enrolledCourses :: "enrolment list"

definition student_session :: "student \<Rightarrow> student_session" where
  "student_session s =
     \<lparr> ss_id = s_id s, ss_firstName = s_firstName s, ss_lastName = s_lastName s,
       ss_email = s_email s, ss_status = s_status s,
       ss_enrolledCourses = s_enrolledCourses s \<rparr>"

text \<open>
  The response of a route: the reply's status, \<^verbatim>\<open>message\<close> and \<^verbatim>\<open>error\<close>, and
  the other fields a route may put in the body (\<open>None\<close> when the body has no such
  field). \<open>body_requires2FA\<close> is the body's \<^verbatim>\<open>requires2FA\<close>, \<open>body_status\<close> its
  \<^verbatim>\<open>status\<close> field.
\<close>

record response = reply +
  token :: "jwt option"
  tempToken :: "jwt option"
  body_requires2FA :: "bool option"
  body_user :: "user_view option"
  body_student :: "student_view option"
  body_session :: "student_session option"
  body_status :: "string option"

definition respond :: "nat \<Rightarrow> string \<Rightarrow> response" where
  "respond code m =
     \<lparr> status = code, message = m, error = None, token = None, tempToken = None,
       body_requires2FA = None, body_user = None, body_student = None,
       body_session = None, body_status = None \<rparr>"

definition respond_error :: "nat \<Rightarrow> string \<Rightarrow> js_error \<Rightarrow> response" where
  "respond_error code m e = (respond code m) \<lparr> error := Some (err_message e) \<rparr>"

section \<open>User routes (routes/auth.mjs)\<close>

text \<open>
  \<^verbatim>\<open>typeof x === 'string' ? JSON.parse(x) : x\<close>: a string is parsed, and the parse
  may throw; anything else is taken as it is.
\<close>

definition parse_if_string :: "world \<Rightarrow> json option \<Rightarrow> js_error + json option" where
  "parse_if_string w x =
     (case x of
        Some (JStr s) \<Rightarrow> (case JSON_parse w s of Inl e \<Rightarrow> Inl e | Inr j \<Rightarrow> Inr (Some j))
      | _ \<Rightarrow> Inr x)"

text \<open>
  The helper \<^verbatim>\<open>uploadToCloudinary\<close> of routes/auth.mjs: every failure inside,
  the missing buffer and the missing \<^verbatim>\<open>secure_url\<close> included, is rethrown as one
  upload error, after a line on the console. The helper's result comes with the
  lines it wrote.
\<close>

definition upload_attempt :: "world \<Rightarrow> string \<Rightarrow> upload_file \<Rightarrow> js_error + string" where
  "upload_attempt w folder file =
     (case buffer file of
        None \<Rightarrow> Inl (new_Error ''No file provided or invalid file format'')
      | Some b \<Rightarrow>
          (case cloudinary_upload w folder file of
             Inl e \<Rightarrow> Inl e
           | Inr None \<Rightarrow> Inl (new_Error ''Failed to get secure URL from Cloudinary'')
           | Inr (Some url) \<Rightarrow>
               if url = [] then Inl (new_Error ''Failed to get secure URL from Cloudinary'')
               else Inr url))"

definition uploadToCloudinary_user :: "world \<Rightarrow> upload_file \<Rightarrow> (js_error + string) \<times> string list" where
  "uploadToCloudinary_user w file =
     (case upload_attempt w ''user_profiles'' file of
        Inl e \<Rightarrow> (Inl (new_Error (''Error uploading image to Cloudinary: '' @ err_message e)),
                  [''Cloudinary upload error:''])
      | Inr url \<Rightarrow> (Inr url, []))"

text \<open>The body and file of \<^verbatim>\<open>POST /api/auth/register\<close>.\<close>

record register_body =
  rb_firstName :: string
  rb_lastName :: string
  rb_email :: string
  rb_password :: string
  rb_cnic :: string
  rb_phoneNumber :: string
  rb_dateOfBirth :: string
  rb_expertise :: "json option"
  rb_location :: "json option"
  rb_languages :: "json option"
  rb_qualification :: string
  rb_role :: "string option"
  rb_file :: "upload_file option"

text \<open>
  \<^verbatim>\<open>User.findOne({ $or: [{ email }, { cnic }] })\<close> and \<^verbatim>\<open>User.findOne({ email })\<close>:
  the first stored user that matches. The query is cast through the schema: the
  email is lowercased and trimmed, the CNIC (\<^verbatim>\<open>trim: true\<close> in the user schema) is
  trimmed, before they are compared with the stored values.
\<close>

definition User_findOne_email_or_cnic :: "state \<Rightarrow> string \<Rightarrow> string \<Rightarrow> user option" where
  "User_findOne_email_or_cnic st e c =
     find (\<lambda>u. u_email u = email_setters e \<or> u_cnic u = js_trim c) (users st)"

definition User_findOne_email :: "state \<Rightarrow> string \<Rightarrow> user option" where
  "User_findOne_email st e = find (\<lambda>u. u_email u = email_setters e) (users st)"

text \<open>\<^verbatim>\<open>User.findById(id)\<close>; an \<^verbatim>\<open>undefined\<close> id finds nothing.\<close>

definition User_findById :: "state \<Rightarrow> string option \<Rightarrow> user option" where
  "User_findById st i =
     (case i of None \<Rightarrow> None | Some x \<Rightarrow> find (\<lambda>u. u_id u = x) (users st))"

text \<open>
  \<^verbatim>\<open>new User({...})\<close> of the registration: the role defaults to \<^verbatim>\<open>'user'\<close>, the
  schema's setters lowercase the email and trim the string paths declared with
  \<^verbatim>\<open>trim: true\<close>, the schema's defaults fill the rest.
\<close>

definition new_User :: "world \<Rightarrow> register_body \<Rightarrow> json option \<Rightarrow> json option \<Rightarrow> json option
    \<Rightarrow> string \<Rightarrow> user" where
  "new_User w b parsedExpertise parsedLanguages parsedLocation profilePictureUrl =
     \<lparr> u_id = new_ObjectId w, u_firstName = js_trim (rb_firstName b),
       u_lastName = js_trim (rb_lastName b), u_email = email_setters (rb_email b),
       u_password = rb_password b, u_cnic = js_trim (rb_cnic b),
       u_phoneNumber = js_trim (rb_phoneNumber b), u_dateOfBirth = rb_dateOfBirth b,
       u_expertise = parsedExpertise, u_profilePicture = profilePictureUrl,
       u_location = parsedLocation, u_languages = parsedLanguages,
       u_qualification = js_trim (rb_qualification b),
       u_role = (case js_or (rb_role b) (Some ''user'') of Some r \<Rightarrow> r | None \<Rightarrow> ''user''),
       u_isVerified = False, u_twoFactorSecret = None, u_twoFactorEnabled = False \<rparr>"

text \<open>
  \<^verbatim>\<open>user.save()\<close> of a new document: the pre-save hook hashes the password, the
  store validates and inserts, or fails and stores nothing.
\<close>

definition User_save_new :: "world \<Rightarrow> user \<Rightarrow> state \<Rightarrow> js_error + user \<times> state" where
  "User_save_new w u st =
     (let hashed = u \<lparr> u_password := bcrypt_hash w (u_password u) \<rparr> in
      case user_save_error w hashed of
        Some e \<Rightarrow> Inl e
      | None \<Rightarrow> Inr (hashed, st \<lparr> users := users st @ [hashed] \<rparr>))"


text \<open>The claims of a user's session token.\<close>

definition user_claims :: "user \<Rightarrow> claims" where
  "user_claims u =
     \<lparr> userId = Some (u_id u), studentId = None, role = Some (u_role u),
       email = Some (u_email u), requires2FA = None \<rparr>"

text \<open>
  The response that carries a session token of 24 hours and the user's view: the
  registration (201) and the two login routes (200) build it alike.
\<close>

definition login_success :: "string option \<Rightarrow> nat \<Rightarrow> nat \<Rightarrow> string \<Rightarrow> user \<Rightarrow> response" where
  "login_success JWT_SECRET now code m u =
     (respond code m)
       \<lparr> token := Some (jwt_sign (user_claims u) (signing_key JWT_SECRET) ttl_24h now),
         body_user := Some (user_view u) \<rparr>"

text \<open>Writing lines to the console.\<close>

definition logged :: "string list \<Rightarrow> state \<Rightarrow> state" where
  "logged ls st = st \<lparr> console := console st @ ls \<rparr>"

text \<open>
  \<^verbatim>\<open>POST /api/auth/register\<close>. The body of the handler's \<^verbatim>\<open>try\<close>: \<open>Inl\<close> is
  the error thrown, \<open>Inr\<close> the response sent, each with the state left.
\<close>

definition auth_register_try :: "world \<Rightarrow> string option \<Rightarrow> register_body \<Rightarrow> state
    \<Rightarrow> (js_error + response) \<times> state" where
  "auth_register_try w JWT_SECRET b st =
     (case parse_if_string w (rb_expertise b) of Inl e \<Rightarrow> (Inl e, st) | Inr parsedExpertise \<Rightarrow>
      case parse_if_string w (rb_languages b) of Inl e \<Rightarrow> (Inl e, st) | Inr parsedLanguages \<Rightarrow>
      case parse_if_string w (rb_location b) of Inl e \<Rightarrow> (Inl e, st) | Inr parsedLocation \<Rightarrow>
      case User_findOne_email_or_cnic st (rb_email b) (rb_cnic b) of
        Some existingUser \<Rightarrow>
          (Inr (respond 400 (if u_email existingUser = rb_email b
                             then ''Email already registered''
                             else ''CNIC already registered'')), st)
      | None \<Rightarrow>
          (case (case rb_file b of None \<Rightarrow> (Inr [], []) | Some f \<Rightarrow> uploadToCloudinary_user w f) of
             (Inl e, ls) \<Rightarrow> (Inl e, logged ls st)
           | (Inr profilePictureUrl, ls) \<Rightarrow>
               (case User_save_new w
                       (new_User w b parsedExpertise parsedLanguages parsedLocation profilePictureUrl)
                       (logged ls st) of
                  Inl e \<Rightarrow> (Inl e, logged ls st)
                | Inr (u, st') \<Rightarrow>
                    (Inr (login_success JWT_SECRET (clock w) 201 ''User registered successfully'' u),
                     st'))))"

definition auth_register :: "world \<Rightarrow> string option \<Rightarrow> register_body \<Rightarrow> state
    \<Rightarrow> response \<times> state" where
  "auth_register w JWT_SECRET b st =
     (case auth_register_try w JWT_SECRET b st of
        (Inl e, st') \<Rightarrow> (respond_error 500 ''Error registering user'' e, st')
      | (Inr r, st') \<Rightarrow> (r, st'))"

text \<open>\<^verbatim>\<open>POST /api/auth/login\<close>.\<close>

definition auth_login :: "world \<Rightarrow> string option \<Rightarrow> string \<Rightarrow> string \<Rightarrow> state \<Rightarrow> response" where
  "auth_login w JWT_SECRET email_in password_in st =
     (case User_findOne_email st email_in of
        None \<Rightarrow> respond 401 ''Invalid credentials''
      | Some u \<Rightarrow>
          if \<not> bcrypt_compare w password_in (u_password u)
          then respond 401 ''Invalid credentials.''
          else if u_twoFactorEnabled u
          then (respond 200 ''2FA verification required'')
                 \<lparr> body_requires2FA := Some True,
                   tempToken := Some (jwt_sign ((user_claims u) \<lparr> requires2FA := Some True \<rparr>)
                                       (signing_key JWT_SECRET) ttl_5m (clock w)) \<rparr>
          else login_success JWT_SECRET (clock w) 200 ''Login successful'' u)"

text \<open>
  \<^verbatim>\<open>POST /api/auth/login/verify-2fa\<close>. The body's \<^verbatim>\<open>tempToken\<close> and \<^verbatim>\<open>code\<close>
  may be missing; an empty token and an empty code are falsy.
\<close>

definition auth_login_verify_2fa :: "world \<Rightarrow> string option \<Rightarrow> jwt option \<Rightarrow> string option
    \<Rightarrow> state \<Rightarrow> response" where
  "auth_login_verify_2fa w JWT_SECRET tempToken_in code_in st =
     (case (token_given tempToken_in, js_or code_in None) of
        (Some t, Some c) \<Rightarrow>
          (case jwt_verify t (signing_key JWT_SECRET) (clock w) of
             Inl e \<Rightarrow> respond_error 500 ''Error verifying 2FA'' e
           | Inr d \<Rightarrow>
               if requires2FA d \<noteq> Some True then respond 400 ''Invalid token''
               else (case User_findById st (userId d) of
                       None \<Rightarrow> respond 404 ''User not found''
                     | Some u \<Rightarrow>
                         (case totp_verify w (u_twoFactorSecret u) c of
                            Inl e \<Rightarrow> respond_error 500 ''Error verifying 2FA'' e
                          | Inr verified \<Rightarrow>
                              if \<not> verified then respond 400 ''Invalid verification code''
                              else login_success JWT_SECRET (clock w) 200 ''Login successful'' u)))
      | _ \<Rightarrow> respond 400 ''Missing required fields'')"










section \<open>Student routes (routes/student.mjs)\<close>

text \<open>\<^verbatim>\<open>s.includes(sub)\<close> on strings.\<close>

fun str_includes :: "string \<Rightarrow> string \<Rightarrow> bool" where
  "str_includes [] sub = (sub = [])"
| "str_includes (c # cs) sub = (take (length sub) (c # cs) = sub \<or> str_includes cs sub)"

text \<open>
  The helper \<^verbatim>\<open>uploadToCloudinary\<close> of routes/student.mjs: as the one of the user
  routes, with a message of its own for a timeout.
\<close>

definition uploadToCloudinary_student :: "world \<Rightarrow> upload_file \<Rightarrow> (js_error + string) \<times> string list" where
  "uploadToCloudinary_student w file =
     (case upload_attempt w ''student_profiles'' file of
        Inl e \<Rightarrow>
          (if http_code e = Some 499 \<or> err_name e = ''TimeoutError''
              \<or> str_includes (err_message e) ''timeout''
           then Inl (new_Error ''Image upload timed out. Please try with a smaller image or check your network connection.'')
           else Inl (new_Error (''Error uploading image to Cloudinary: '' @ err_message e)),
           [''Cloudinary upload error:''])
      | Inr url \<Rightarrow> (Inr url, []))"

text \<open>\<^verbatim>\<open>compressImage\<close>: on any failure the original URL is returned.\<close>

definition compressImage :: "world \<Rightarrow> string \<Rightarrow> string \<times> string list" where
  "compressImage w imageUrl =
     (case compress_upload w imageUrl of
        Inl e \<Rightarrow> (imageUrl, [''Error compressing image:''])
      | Inr url \<Rightarrow> (url, []))"

text \<open>The body and file of \<^verbatim>\<open>POST /api/students/register\<close>.\<close>

record student_body =
  sb_firstName :: string
  sb_lastName :: string
  sb_email :: string
  sb_password :: string
  sb_cnic :: string
  sb_phoneNumber :: string
  sb_dateOfBirth :: string
  sb_gender :: string
  sb_address :: "json option"
  sb_guardianName :: string
  sb_guardianPhone :: string
  sb_guardianRelation :: string
  sb_enrolledCourses :: "json option"
  sb_file :: "upload_file option"

text \<open>The address the registration falls back to.\<close>

definition empty_address :: json where
  "empty_address =
     JObj [(''street'', JStr []), (''city'', JStr []), (''state'', JStr []),
           (''zipCode'', JStr []), (''country'', JStr [])]"

text \<open>
  The address block of the registration: a string is parsed, and a string that
  does not parse is replaced by the empty address, after a line on the console.
\<close>

definition parse_address :: "world \<Rightarrow> json option \<Rightarrow> json option \<times> string list" where
  "parse_address w address =
     (case address of
        Some (JStr s) \<Rightarrow>
          (case JSON_parse w s of
             Inl e \<Rightarrow> (Some empty_address, [''Error parsing address:''])
           | Inr j \<Rightarrow> (Some j, []))
      | _ \<Rightarrow> (address, []))"

text \<open>Truthiness of a body field, and \<^verbatim>\<open>x.length\<close> (reading it off \<^verbatim>\<open>null\<close> throws).\<close>

fun truthy :: "json option \<Rightarrow> bool" where
  "truthy None = False"
| "truthy (Some JNull) = False"
| "truthy (Some (JBool b)) = b"
| "truthy (Some (JNum n)) = (n \<noteq> 0)"
| "truthy (Some (JStr s)) = (s \<noteq> [])"
| "truthy (Some (JArr xs)) = True"
| "truthy (Some (JObj kvs)) = True"

fun js_length :: "json \<Rightarrow> js_error + nat option" where
  "js_length JNull = Inl (Error ''TypeError'' ''Cannot read properties of null'' None)"
| "js_length (JArr xs) = Inr (Some (length xs))"
| "js_length (JStr s) = Inr (Some (length s))"
| "js_length j = Inr None"

text \<open>A step of a handler: it threw, it sent a response, or it went on with a value.\<close>

datatype 'a step = Threw js_error | Sent response | Continue 'a

text \<open>
  The course block of the registration. Inside its \<^verbatim>\<open>try\<close>: the ids are parsed
  (a string) or taken (an array) or empty; the courses are looked up; the counts
  are compared; an entry is made per id. Whatever is thrown there is answered 400.
\<close>

definition courses_try :: "world \<Rightarrow> json \<Rightarrow> enrolment list step" where
  "courses_try w enrolledCourses =
     (case (case enrolledCourses of
              JStr s \<Rightarrow> JSON_parse w s
            | JArr xs \<Rightarrow> Inr (JArr xs)
            | _ \<Rightarrow> Inr (JArr [])) of
        Inl e \<Rightarrow> Threw e
      | Inr courseIds \<Rightarrow>
          (case Course_find w courseIds of
             Inl e \<Rightarrow> Threw e
           | Inr n \<Rightarrow>
               (case js_length courseIds of
                  Inl e \<Rightarrow> Threw e
                | Inr len \<Rightarrow>
                    if Some n \<noteq> len
                    then Sent (respond 400 ''One or more selected courses do not exist'')
                    else (case courseIds of
                            JArr xs \<Rightarrow>
                              Continue (map (\<lambda>c. \<lparr> courseId = c, enrollmentDate = clock w,
                                                   enrolment_status = ''Active'' \<rparr>) xs)
                          | _ \<Rightarrow> Threw (Error ''TypeError'' ''courseIds.map is not a function'' None)))))"

definition parse_courses :: "world \<Rightarrow> json option \<Rightarrow> enrolment list step \<times> string list" where
  "parse_courses w enrolledCourses =
     (case enrolledCourses of
        None \<Rightarrow> (Continue [], [])
      | Some ec \<Rightarrow>
          if \<not> truthy (Some ec) then (Continue [], [])
          else (case courses_try w ec of
                  Threw e \<Rightarrow> (Sent (respond 400 ''Invalid course selection format''),
                              [''Error parsing enrolled courses:''])
                | r \<Rightarrow> (r, [])))"

text \<open>
  \<^verbatim>\<open>Student.findOne({ $or: [{ email }, { cnic }] })\<close> and
  \<^verbatim>\<open>Student.findOne({ email })\<close>: the first stored student that matches. The email
  of the query is lowercased and trimmed by the schema; the student schema
  declares no setter for the CNIC.
\<close>

definition Student_findOne_email_or_cnic :: "state \<Rightarrow> string \<Rightarrow> string \<Rightarrow> student option" where
  "Student_findOne_email_or_cnic st e c =
     find (\<lambda>s. s_email s = email_setters e \<or> s_cnic s = c) (students st)"

definition Student_findOne_email :: "state \<Rightarrow> string \<Rightarrow> student option" where
  "Student_findOne_email st e = find (\<lambda>s. s_email s = email_setters e) (students st)"

text \<open>
  The pre-save hook of the student schema draws roll ids until one is free. The
  draws are the world's; \<open>None\<close> is a loop that finds no free id among them and
  does not come back.
\<close>

fun pick_rollId :: "string list \<Rightarrow> student list \<Rightarrow> string option" where
  "pick_rollId [] sts = None"
| "pick_rollId (r # rs) sts =
     (if find (\<lambda>s. s_rollId s = Some r) sts = None then Some r else pick_rollId rs sts)"

text \<open>
  \<^verbatim>\<open>student.save()\<close> of a new document: validation, the roll-id hook, the insert.
  A failure stores nothing.
\<close>

definition Student_save_new :: "world \<Rightarrow> student \<Rightarrow> state \<Rightarrow> (js_error + student \<times> state) option" where
  "Student_save_new w s st =
     (case student_validate_error w s of
        Some e \<Rightarrow> Some (Inl e)
      | None \<Rightarrow>
          (case (if js_or (s_rollId s) None = None then pick_rollId (rollId_draws w) (students st)
                 else s_rollId s) of
             None \<Rightarrow> None
           | Some r \<Rightarrow>
               (let s' = s \<lparr> s_rollId := Some r \<rparr> in
                case student_insert_error w s' of
                  Some e \<Rightarrow> Some (Inl e)
                | None \<Rightarrow> Some (Inr (s', st \<lparr> students := students st @ [s'] \<rparr>)))))"

text \<open>
  \<^verbatim>\<open>new Student({...})\<close> of the registration, with the hashed password and the
  status \<^verbatim>\<open>Pending\<close>; the schema's setters lowercase the email and trim the
  names, the email and the phone number.
\<close>

definition new_Student :: "world \<Rightarrow> student_body \<Rightarrow> json option \<Rightarrow> enrolment list \<Rightarrow> string \<Rightarrow> student" where
  "new_Student w b parsedAddress parsedCourses compressedProfileUrl =
     \<lparr> s_id = new_ObjectId w, s_firstName = js_trim (sb_firstName b),
       s_lastName = js_trim (sb_lastName b), s_email = email_setters (sb_email b),
       s_password = bcrypt_hash w (sb_password b), s_cnic = sb_cnic b,
       s_phoneNumber = js_trim (sb_phoneNumber b), s_dateOfBirth = sb_dateOfBirth b,
       s_gender = sb_gender b, s_address = parsedAddress,
       s_guardianName = sb_guardianName b, s_guardianPhone = sb_guardianPhone b,
       s_guardianRelation = sb_guardianRelation b, s_enrolledCourses = parsedCourses,
       s_profilePicture = compressedProfileUrl, s_status = ''Pending'', s_rollId = None \<rparr>"

text \<open>
  The picture block of the registration: the upload when a file came with the
  request, then the compression of what was uploaded. Only the upload can throw.
\<close>

definition picture_block :: "world \<Rightarrow> upload_file option \<Rightarrow> (js_error + string) \<times> string list" where
  "picture_block w file =
     (case (case file of None \<Rightarrow> (Inr [], []) | Some f \<Rightarrow> uploadToCloudinary_student w f) of
        (Inl e, ls) \<Rightarrow> (Inl e, ls)
      | (Inr profilePictureUrl, ls) \<Rightarrow>
          (case (if profilePictureUrl \<noteq> [] then compressImage w profilePictureUrl
                 else (profilePictureUrl, [])) of
             (compressedProfileUrl, ls') \<Rightarrow> (Inr compressedProfileUrl, ls @ ls')))"

text \<open>
  \<^verbatim>\<open>POST /api/students/register\<close>, from the top of the handler to
  \<^verbatim>\<open>await student.save()\<close>: the address, the courses, the duplicate check, the
  picture, the hash, the save. \<open>None\<close> is a save that does not come back.
\<close>

definition student_register_save :: "world \<Rightarrow> student_body \<Rightarrow> state \<Rightarrow> (student step \<times> state) option" where
  "student_register_save w b st =
     (case parse_address w (sb_address b) of (parsedAddress, ls1) \<Rightarrow>
      case parse_courses w (sb_enrolledCourses b) of
        (Threw e, ls2) \<Rightarrow> Some (Threw e, logged (ls1 @ ls2) st)
      | (Sent r, ls2) \<Rightarrow> Some (Sent r, logged (ls1 @ ls2) st)
      | (Continue parsedCourses, ls2) \<Rightarrow>
          (case Student_findOne_email_or_cnic st (sb_email b) (sb_cnic b) of
             Some existingStudent \<Rightarrow>
               Some (Sent (respond 400 (if s_email existingStudent = sb_email b
                                        then ''Email already registered''
                                        else ''CNIC already registered'')),
                     logged (ls1 @ ls2) st)
           | None \<Rightarrow>
               (case picture_block w (sb_file b) of
                  (Inl e, ls3) \<Rightarrow> Some (Threw e, logged (ls1 @ ls2 @ ls3) st)
                | (Inr compressedProfileUrl, ls3) \<Rightarrow>
                    (case Student_save_new w
                            (new_Student w b parsedAddress parsedCourses compressedProfileUrl)
                            (logged (ls1 @ ls2 @ ls3) st) of
                       None \<Rightarrow> None
                     | Some (Inl e) \<Rightarrow> Some (Threw e, logged (ls1 @ ls2 @ ls3) st)
                     | Some (Inr (s, st')) \<Rightarrow> Some (Continue s, st')))))"

text \<open>
  The ID-card block of the registration (the inner \<^verbatim>\<open>try\<close>): what it throws, if
  anything, and the lines it writes. A failure of the QR code is caught inside and
  the card goes out without it; a failure of the mail transport is rethrown with a
  message of the block's own.
\<close>

definition qrData :: "student \<Rightarrow> string" where
  "qrData s = (if s_id s \<noteq> [] \<and> s_email s \<noteq> [] then s_id s @ ''|'' @ s_email s else ''AaghaazTech'')"

definition qr_block :: "idcard_world \<Rightarrow> student \<Rightarrow> string list" where
  "qr_block ic s =
     (case QRCode_toDataURL ic (qrData s) of
        Inl e \<Rightarrow> [''Error generating QR code:'']
      | Inr qrCodeDataUrl \<Rightarrow>
          (case pdf_addImage ic qrCodeDataUrl of
             Some e \<Rightarrow> [''Error generating QR code:'']
           | None \<Rightarrow> []))"

definition id_card_block :: "idcard_world \<Rightarrow> student \<Rightarrow> js_error option \<times> string list" where
  "id_card_block ic s =
     (case pdf_layout ic s of
        Some e \<Rightarrow> (Some e, [])
      | None \<Rightarrow>
          (let ls = qr_block ic s in
           case pdf_output ic of
             Inl e \<Rightarrow> (Some e, ls)
           | Inr idCardPdfBuffer \<Rightarrow>
               (case createTransport ic of
                  Some e \<Rightarrow> (Some e, ls)
                | None \<Rightarrow>
                    (case transporter_verify ic of
                       Some e \<Rightarrow>
                         (Some (new_Error (''SMTP configuration error: '' @ err_message e)),
                          ls @ [''SMTP connection verification failed:''])
                     | None \<Rightarrow>
                         (case transporter_sendMail ic
                                 \<lparr> mail_to = s_email s,
                                   mail_subject = ''Welcome to Aaghaaz Tech - Your Student ID Card'',
                                   mail_attachment = idCardPdfBuffer \<rparr> of
                            Some e \<Rightarrow>
                              (Some (new_Error (''Failed to send email: '' @ err_message e)),
                               ls @ [''Error sending email:''])
                          | None \<Rightarrow> (None, ls))))))"

text \<open>The 201 response of the registration.\<close>

definition registered :: "student \<Rightarrow> response" where
  "registered s =
     (respond 201 ''Registered successfully. You are in pending approval. so please go to the campus office to get your card and verify!'')
       \<lparr> body_student := Some (student_view s) \<rparr>"

text \<open>
  The rest of the handler after the save: the ID-card block inside its
  \<^verbatim>\<open>try\<close>/\<^verbatim>\<open>catch\<close>, the student on the console, the response.
\<close>

definition student_register_finish :: "idcard_world \<Rightarrow> student \<Rightarrow> state \<Rightarrow> response \<times> state" where
  "student_register_finish ic s st =
     (case id_card_block ic s of
        (thrown, ls) \<Rightarrow>
          (registered s,
           logged (ls @ (case thrown of Some e \<Rightarrow> [''Error generating/sending ID card:''] | None \<Rightarrow> [])
                     @ [''student'']) st))"

definition student_register :: "world \<Rightarrow> idcard_world \<Rightarrow> student_body \<Rightarrow> state
    \<Rightarrow> (response \<times> state) option" where
  "student_register w ic b st =
     (case student_register_save w b st of
        None \<Rightarrow> None
      | Some (Threw e, st') \<Rightarrow>
          Some (respond_error 500 ''Error registering student'' e,
                logged [''Error registering student:''] st')
      | Some (Sent r, st') \<Rightarrow> Some (r, st')
      | Some (Continue s, st') \<Rightarrow> Some (student_register_finish ic s st'))"

text \<open>\<^verbatim>\<open>POST /api/students/login\<close>.\<close>

definition student_claims :: "student \<Rightarrow> claims" where
  "student_claims s =
     \<lparr> userId = None, studentId = Some (s_id s), role = Some ''student'', email = None,
       requires2FA = None \<rparr>"

definition student_login :: "world \<Rightarrow> string option \<Rightarrow> string \<Rightarrow> string \<Rightarrow> state \<Rightarrow> response" where
  "student_login w JWT_SECRET email_in password_in st =
     (case Student_findOne_email st email_in of
        None \<Rightarrow> respond 401 ''Invalid credentials''
      | Some s \<Rightarrow>
          if \<not> bcrypt_compare w password_in (s_password s)
          then respond 401 ''Invalid credentials''
          else if \<not> canAccessAccount s
          then (respond 403 ''Your account is not active. Please contact the administration for more information.'')
                 \<lparr> body_status := Some (s_status s) \<rparr>
          else (respond 200 ''Login successful'')
                 \<lparr> token := Some (jwt_sign (student_claims s) (signing_key JWT_SECRET) ttl_24h (clock w)),
                   body_session := Some (student_session s) \<rparr>)"

section \<open>Observations and sample data\<close>

text \<open>What a registration leaves for the client and the store: the response and the two collections.\<close>

definition outcome :: "response \<times> state \<Rightarrow> response \<times> user list \<times> student list" where
  "outcome x = (fst x, users (snd x), students (snd x))"


text \<open>
  A world for concrete runs: \<^verbatim>\<open>JSON.parse\<close> accepts the empty array only, the image
  host times out, the one-time code of the moment is 492039, the stores accept
  every save.
\<close>

definition sample_world :: world where
  "sample_world =
     \<lparr> clock = 1000,
       JSON_parse = (\<lambda>s. if s = ''[]'' then Inr (JArr [])
                          else Inl (Error ''SyntaxError'' ''Unexpected token in JSON'' None)),
       bcrypt_hash = (\<lambda>p. ''$2b$10$'' @ p),
       bcrypt_compare = (\<lambda>p h. h = ''$2b$10$'' @ p),
       totp_verify = (\<lambda>secret code. Inr (secret = Some ''JBSWY3DPEHPK3PXP'' \<and> code = ''492039'')),
       cloudinary_upload = (\<lambda>folder f. Inl (Error ''Error'' ''Request Timeout'' (Some 499))),
       new_ObjectId = ''65f000000000000000000003'',
       user_save_error = (\<lambda>u. None),
       student_validate_error = (\<lambda>s. None),
       student_insert_error = (\<lambda>s. None),
       Course_find = (\<lambda>j. Inr 0),
       rollId_draws = [''100001'', ''482913''],
       compress_upload = (\<lambda>u. Inr u) \<rparr>"

text \<open>An ID-card world where the QR code fails and the mail server refuses the connection.\<close>

definition sample_idcard_world :: idcard_world where
  "sample_idcard_world =
     \<lparr> pdf_layout = (\<lambda>s. None),
       QRCode_toDataURL = (\<lambda>s. Inl (Error ''Error'' ''No input text'' None)),
       pdf_addImage = (\<lambda>u. None),
       pdf_output = Inr ''%PDF-1.3'',
       createTransport = None,
       transporter_verify = Some (Error ''Error'' ''connect ECONNREFUSED'' None),
       transporter_sendMail = (\<lambda>m. None) \<rparr>"

text \<open>A user with the second factor enabled, and a student waiting for approval.\<close>

definition sample_user :: user where
  "sample_user =
     \<lparr> u_id = ''65f000000000000000000001'', u_firstName = ''Ada'', u_lastName = ''Khan'',
       u_email = ''a@x.com'', u_password = ''$2b$10$secret1'', u_cnic = ''1234567890123'',
       u_phoneNumber = ''03001234567'', u_dateOfBirth = ''1990-01-01'', u_expertise = None,
       u_profilePicture = [], u_location = None, u_languages = None, u_qualification = ''BS'',
       u_role = ''admin'', u_isVerified = False,
       u_twoFactorSecret = Some ''JBSWY3DPEHPK3PXP'', u_twoFactorEnabled = True \<rparr>"

definition sample_student :: student where
  "sample_student =
     \<lparr> s_id = ''65f000000000000000000002'', s_firstName = ''Bilal'', s_lastName = ''Raza'',
       s_email = ''b@x.com'', s_password = ''$2b$10$secret2'', s_cnic = ''9876543210987'',
       s_phoneNumber = ''03007654321'', s_dateOfBirth = ''2001-05-05'', s_gender = ''male'',
       s_address = None, s_guardianName = ''Raza'', s_guardianPhone = ''03001112222'',
       s_guardianRelation = ''father'', s_enrolledCourses = [], s_profilePicture = [],
       s_status = ''Pending'', s_rollId = Some ''100001'' \<rparr>"

definition sample_state :: state where
  "sample_state = \<lparr> users = [sample_user], students = [sample_student], console = [] \<rparr>"

text \<open>A pending token of the sample user, issued at time 1000 under the default key.\<close>

definition sample_claims :: claims where
  "sample_claims =
     \<lparr> userId = Some ''65f000000000000000000001'', studentId = None, role = Some ''admin'',
       email = Some ''a@x.com'', requires2FA = Some True \<rparr>"

definition sample_token :: jwt where
  "sample_token = jwt_sign sample_claims ''121212'' ttl_5m 1000"

text \<open>Registration requests for the sample runs.\<close>

definition sample_register_body :: register_body where
  "sample_register_body =
     \<lparr> rb_firstName = ''Ada'', rb_lastName = ''Khan'', rb_email = ''a@x.com'',
       rb_password = ''secret9'', rb_cnic = ''1111111111111'', rb_phoneNumber = ''03001234567'',
       rb_dateOfBirth = ''1990-01-01'', rb_expertise = None, rb_location = None,
       rb_languages = None, rb_qualification = ''BS'', rb_role = None, rb_file = None \<rparr>"

definition sample_student_body :: student_body where
  "sample_student_body =
     \<lparr> sb_firstName = ''Sana'', sb_lastName = ''Ali'', sb_email = ''c@x.com'',
       sb_password = ''secret3'', sb_cnic = ''5555555555555'', sb_phoneNumber = ''03005556666'',
       sb_dateOfBirth = ''2002-02-02'', sb_gender = ''female'', sb_address = None,
       sb_guardianName = ''Ali'', sb_guardianPhone = ''03003334444'',
       sb_guardianRelation = ''mother'', sb_enrolledCourses = None, sb_file = None \<rparr>"

text \<open>The document the sample student registration saves, roll id drawn.\<close>

definition sample_saved :: student where
  "sample_saved = (new_Student sample_world sample_student_body None [] []) \<lparr> s_rollId := Some ''482913'' \<rparr>"

definition sample_file :: upload_file where
  "sample_file = \<lparr> buffer = Some ''JFIF'', mimetype = ''image/jpeg'' \<rparr>"

section \<open>Basic facts\<close>

lemma status_respond: "status (respond code m) = code"
  by (simp add: respond_def)

lemma status_respond_error: "status (respond_error code m e) = code"
  by (simp add: respond_error_def respond_def)

lemma students_logged: "students (logged ls st) = students st"
  by (simp add: logged_def)

lemma users_logged: "users (logged ls st) = users st"
  by (simp add: logged_def)

lemma sample_setters:
  "email_setters ''a@x.com'' = ''a@x.com''" "email_setters ''b@x.com'' = ''b@x.com''"
  "email_setters ''c@x.com'' = ''c@x.com''" "email_setters ''d@x.com'' = ''d@x.com''"
  "email_setters ''A@x.com'' = ''a@x.com''" "email_setters ''B@X.COM'' = ''b@x.com''"
  "js_trim ''1111111111111'' = ''1111111111111''" "js_trim ''Sana'' = ''Sana''"
  "js_trim ''Ali'' = ''Ali''" "js_trim ''03005556666'' = ''03005556666''"
  by (simp_all add: email_setters_def js_trim_def toLowerCase_def lower_char_def is_space_def)

lemma new_Student_address:
  "new_Student w (b \<lparr> sb_address := a \<rparr>) pa cs url = new_Student w b pa cs url"
  by (simp add: new_Student_def)

section \<open>Token service\<close>

lemma js_or_None_eq_Some: "js_or c None = Some x \<longleftrightarrow> c = Some x \<and> x \<noteq> []"
  by (cases c) auto

lemma jwt_verify_Inr_Signed:
  assumes "jwt_verify t key now = Inr d"
  shows "t = Signed d key"
  using assms by (cases t) (auto simp: jwt_verify_def split: if_splits option.splits)

lemma token_given_verified:
  assumes "jwt_verify t key now = Inr d"
  shows "token_given (Some t) = Some t"
  using jwt_verify_Inr_Signed [OF assms] by (simp add: token_given_def)

text \<open>
  Claim C6. A token verified at the moment it was issued, under the key it was
  issued with, gives back the claims it was issued for (principal identifier, role,
  email and the pending-second-factor marker), whatever the claims and whatever
  positive lifetime; the decoded object carries the issue time and the expiry
  besides.
\<close>

theorem verify_after_issue:
  assumes "0 < ttl"
  shows "jwt_verify (jwt_sign c key ttl now) key now =
           Inr \<lparr> userId = userId c, studentId = studentId c, role = role c, email = email c,
                 requires2FA = requires2FA c, iat = now, exp = Some (now + ttl) \<rparr>"
  using assms by (simp add: jwt_verify_def jwt_sign_def)

theorem verify_after_issue_witness:
  "jwt_verify (jwt_sign sample_claims (signing_key None) ttl_5m 1000) (signing_key None) 1000 =
     Inr \<lparr> userId = Some ''65f000000000000000000001'', studentId = None, role = Some ''admin'',
           email = Some ''a@x.com'', requires2FA = Some True, iat = 1000, exp = Some 1300 \<rparr>"
proof -
  have positive: "0 < ttl_5m"
    by (simp add: ttl_5m_def)
  show ?thesis
    using verify_after_issue [OF positive, of sample_claims "signing_key None" 1000]
    by (simp add: sample_claims_def ttl_5m_def)
qed

text \<open>
  Claim C3. The token service tells an expired token from a malformed one, and
  the gate \<open>checkRole\<close> answers them apart. The gate \<open>isAuthenticated\<close> does not:
  the sample token, issued at 1000 for five minutes and presented at 1600, five
  minutes past its expiry, gets the answer a malformed token gets.
\<close>

theorem isAuthenticated_expired_as_invalid:
  "jwt_verify sample_token (signing_key None) 1600 =
     Inl (Error ''TokenExpiredError'' ''jwt expired'' None)
   \<and> jwt_verify (Malformed ''garbage'') (signing_key None) 1600 =
     Inl (Error ''JsonWebTokenError'' ''jwt malformed'' None)
   \<and> checkRole [''admin''] None 1600 (Some sample_token) =
     Respond (json_message 401 ''Token expired'')
   \<and> checkRole [''admin''] None 1600 (Some (Malformed ''garbage'')) =
     Respond (json_message 401 ''Invalid token'')
   \<and> isAuthenticated None 1600 (Some sample_token) =
     Respond (json_message 401 ''Invalid token'')
   \<and> isAuthenticated None 1600 (Some (Malformed ''garbage'')) =
     Respond (json_message 401 ''Invalid token'')
   \<and> isTeacher None 1600 (Some sample_token) =
     Respond (json_message 401 ''Invalid token'')
   \<and> isAdmin None 1600 (Some sample_token) =
     Respond (json_message 401 ''Invalid token'')"
  by (simp add: sample_token_def sample_claims_def jwt_verify_def jwt_sign_def ttl_5m_def
        isAuthenticated_def isTeacher_def isAdmin_def checkRole_def token_given_def signing_key_def)

section \<open>Authorization gates\<close>

lemma join_names:
  assumes "r \<in> set roles"
  shows "\<exists>before after. join sep roles = before @ r @ after"
  using assms
proof (induction sep roles rule: join.induct)
  case (1 sep)
  then show ?case by simp
next
  case (2 sep x)
  then have "join sep [x] = [] @ r @ []" by simp
  then show ?case by blast
next
  case (3 sep x y ys)
  show ?case
  proof (cases "r = x")
    case True
    then have "join sep (x # y # ys) = [] @ r @ (sep @ join sep (y # ys))" by simp
    then show ?thesis by blast
  next
    case False
    with 3 obtain before after where "join sep (y # ys) = before @ r @ after" by auto
    then have "join sep (x # y # ys) = (x @ sep @ before) @ r @ after" by simp
    then show ?thesis by blast
  qed
qed

text \<open>
  Claim C9. A request that reaches a role gate with a token that verifies: when
  the token's role is not among the gate's roles the gate answers 403 with a
  message that names the roles it accepts; when it is, the gate calls the next
  handler with the identity of the token (id, role, email) attached. So for
  \<open>checkRole\<close> with any list of roles, and for \<open>isTeacher\<close> and \<open>isAdmin\<close>.
\<close>

theorem role_gate_decision:
  assumes "jwt_verify t (signing_key JWT_SECRET) now = Inr d"
  shows "checkRole roles JWT_SECRET now (Some t) =
           (if roles_include roles (role d)
            then Next \<lparr> user_id = js_or (userId d) (studentId d), user_role = role d,
                        user_email = email d \<rparr>
            else Respond \<lparr> status = 403,
                           message = ''Access denied. Required role: '' @ join '' or '' roles,
                           error = None \<rparr>)
       \<and> (\<forall>r \<in> set roles. \<exists>before after.
             ''Access denied. Required role: '' @ join '' or '' roles = before @ r @ after)
       \<and> isTeacher JWT_SECRET now (Some t) =
           (if role d = Some ''teacher''
            then Next \<lparr> user_id = js_or (userId d) (studentId d), user_role = role d,
                        user_email = email d \<rparr>
            else Respond \<lparr> status = 403, message = ''Teacher access required'', error = None \<rparr>)
       \<and> isAdmin JWT_SECRET now (Some t) =
           (if role d = Some ''admin''
            then Next \<lparr> user_id = js_or (userId d) (studentId d), user_role = role d,
                        user_email = email d \<rparr>
            else Respond \<lparr> status = 403, message = ''Admin access required'', error = None \<rparr>)"
proof -
  have b: "token_given (Some t) = Some t"
    using assms by (rule token_given_verified)
  have names: "\<forall>r \<in> set roles. \<exists>before after.
      ''Access denied. Required role: '' @ join '' or '' roles = before @ r @ after"
  proof
    fix r assume "r \<in> set roles"
    then obtain before after where "join '' or '' roles = before @ r @ after"
      using join_names by blast
    then have "''Access denied. Required role: '' @ join '' or '' roles =
        (''Access denied. Required role: '' @ before) @ r @ after" by simp
    then show "\<exists>before after.
        ''Access denied. Required role: '' @ join '' or '' roles = before @ r @ after" by blast
  qed
  have c: "checkRole roles JWT_SECRET now (Some t) =
           (if roles_include roles (role d)
            then Next \<lparr> user_id = js_or (userId d) (studentId d), user_role = role d,
                        user_email = email d \<rparr>
            else Respond \<lparr> status = 403,
                           message = ''Access denied. Required role: '' @ join '' or '' roles,
                           error = None \<rparr>)"
    using assms b by (simp add: checkRole_def attach_def json_message_def)
  have t: "isTeacher JWT_SECRET now (Some t) =
           (if role d = Some ''teacher''
            then Next \<lparr> user_id = js_or (userId d) (studentId d), user_role = role d,
                        user_email = email d \<rparr>
            else Respond \<lparr> status = 403, message = ''Teacher access required'', error = None \<rparr>)"
    using assms b by (simp add: isTeacher_def attach_def json_message_def)
  have a: "isAdmin JWT_SECRET now (Some t) =
           (if role d = Some ''admin''
            then Next \<lparr> user_id = js_or (userId d) (studentId d), user_role = role d,
                        user_email = email d \<rparr>
            else Respond \<lparr> status = 403, message = ''Admin access required'', error = None \<rparr>)"
    using assms b by (simp add: isAdmin_def attach_def json_message_def)
  from c names t a show ?thesis by blast
qed

theorem role_gate_decision_witness:
  "adminOnly None 1000 (Some sample_token) =
     Next \<lparr> user_id = Some ''65f000000000000000000001'', user_role = Some ''admin'',
            user_email = Some ''a@x.com'' \<rparr>
   \<and> maintenanceOfficeOnly None 1000 (Some sample_token) =
     Respond \<lparr> status = 403, message = ''Access denied. Required role: maintenance_office'',
               error = None \<rparr>
   \<and> adminOrMaintenance None 1000 (Some sample_token) =
     Next \<lparr> user_id = Some ''65f000000000000000000001'', user_role = Some ''admin'',
            user_email = Some ''a@x.com'' \<rparr>
   \<and> isTeacher None 1000 (Some sample_token) =
     Respond \<lparr> status = 403, message = ''Teacher access required'', error = None \<rparr>
   \<and> isAdmin None 1000 (Some sample_token) =
     Next \<lparr> user_id = Some ''65f000000000000000000001'', user_role = Some ''admin'',
            user_email = Some ''a@x.com'' \<rparr>"
proof -
  have verified: "jwt_verify sample_token (signing_key None) 1000 =
      Inr \<lparr> userId = Some ''65f000000000000000000001'', studentId = None, role = Some ''admin'',
            email = Some ''a@x.com'', requires2FA = Some True, iat = 1000, exp = Some 1300 \<rparr>"
    by (simp add: sample_token_def sample_claims_def jwt_sign_def jwt_verify_def ttl_5m_def
          signing_key_def)
  show ?thesis
    using role_gate_decision [OF verified, of "[''admin'']"]
      role_gate_decision [OF verified, of "[''maintenance_office'']"]
      role_gate_decision [OF verified, of "[''admin'', ''maintenance_office'']"]
    by (simp add: adminOnly_def maintenanceOfficeOnly_def adminOrMaintenance_def
          roles_include_def)
qed

section \<open>Two-factor login\<close>

text \<open>
  Claim C2. A user with the second factor enabled who logs in with the right
  password gets no session token: the answer carries \<^verbatim>\<open>requires2FA\<close> and a token
  of five minutes whose claims carry \<^verbatim>\<open>requires2FA\<close>. The verification route
  issues a session token only when the pending token verifies, its claims carry
  \<^verbatim>\<open>requires2FA\<close>, the user is found and the submitted code checks against the
  stored secret; and then it does. In every other case it answers 400, 404 or 500
  with no token at all.
\<close>

theorem two_factor_login:
  "(User_findOne_email st e = Some u \<and> bcrypt_compare w p (u_password u) \<and> u_twoFactorEnabled u \<longrightarrow>
      status (auth_login w JWT_SECRET e p st) = 200
    \<and> token (auth_login w JWT_SECRET e p st) = None
    \<and> body_user (auth_login w JWT_SECRET e p st) = None
    \<and> body_requires2FA (auth_login w JWT_SECRET e p st) = Some True
    \<and> tempToken (auth_login w JWT_SECRET e p st) =
        Some (Signed \<lparr> userId = Some (u_id u), studentId = None, role = Some (u_role u),
                       email = Some (u_email u), requires2FA = Some True,
                       iat = clock w, exp = Some (clock w + 5 * 60) \<rparr> (signing_key JWT_SECRET)))
 \<and> (token (auth_login_verify_2fa w JWT_SECRET tt c st) \<noteq> None \<longrightarrow>
      (\<exists>t d u' code. tt = Some t \<and> jwt_verify t (signing_key JWT_SECRET) (clock w) = Inr d
          \<and> requires2FA d = Some True \<and> User_findById st (userId d) = Some u'
          \<and> c = Some code \<and> totp_verify w (u_twoFactorSecret u') code = Inr True))
 \<and> (jwt_verify t' (signing_key JWT_SECRET) (clock w) = Inr d' \<and> requires2FA d' = Some True
      \<and> User_findById st (userId d') = Some u'' \<and> code' \<noteq> []
      \<and> totp_verify w (u_twoFactorSecret u'') code' = Inr True \<longrightarrow>
      auth_login_verify_2fa w JWT_SECRET (Some t') (Some code') st =
        (respond 200 ''Login successful'')
          \<lparr> token := Some (jwt_sign (user_claims u'') (signing_key JWT_SECRET) ttl_24h (clock w)),
            body_user := Some (user_view u'') \<rparr>)
 \<and> (token (auth_login_verify_2fa w JWT_SECRET tt c st) = None \<longrightarrow>
      status (auth_login_verify_2fa w JWT_SECRET tt c st) \<in> {400, 404, 500}
    \<and> tempToken (auth_login_verify_2fa w JWT_SECRET tt c st) = None
    \<and> body_user (auth_login_verify_2fa w JWT_SECRET tt c st) = None)"
proof -
  have login: "User_findOne_email st e = Some u \<and> bcrypt_compare w p (u_password u) \<and> u_twoFactorEnabled u \<longrightarrow>
      status (auth_login w JWT_SECRET e p st) = 200
    \<and> token (auth_login w JWT_SECRET e p st) = None
    \<and> body_user (auth_login w JWT_SECRET e p st) = None
    \<and> body_requires2FA (auth_login w JWT_SECRET e p st) = Some True
    \<and> tempToken (auth_login w JWT_SECRET e p st) =
        Some (Signed \<lparr> userId = Some (u_id u), studentId = None, role = Some (u_role u),
                       email = Some (u_email u), requires2FA = Some True,
                       iat = clock w, exp = Some (clock w + 5 * 60) \<rparr> (signing_key JWT_SECRET))"
    by (simp add: auth_login_def respond_def jwt_sign_def user_claims_def ttl_5m_def)
  have only: "token (auth_login_verify_2fa w JWT_SECRET tt c st) \<noteq> None \<longrightarrow>
      (\<exists>t d u' code. tt = Some t \<and> jwt_verify t (signing_key JWT_SECRET) (clock w) = Inr d
          \<and> requires2FA d = Some True \<and> User_findById st (userId d) = Some u'
          \<and> c = Some code \<and> totp_verify w (u_twoFactorSecret u') code = Inr True)"
    by (auto simp: auth_login_verify_2fa_def respond_def respond_error_def token_given_def
          js_or_None_eq_Some
        split: option.splits sum.splits if_splits)
  have issued: "jwt_verify t' (signing_key JWT_SECRET) (clock w) = Inr d' \<and> requires2FA d' = Some True
      \<and> User_findById st (userId d') = Some u'' \<and> code' \<noteq> []
      \<and> totp_verify w (u_twoFactorSecret u'') code' = Inr True \<longrightarrow>
      auth_login_verify_2fa w JWT_SECRET (Some t') (Some code') st =
        (respond 200 ''Login successful'')
          \<lparr> token := Some (jwt_sign (user_claims u'') (signing_key JWT_SECRET) ttl_24h (clock w)),
            body_user := Some (user_view u'') \<rparr>"
    by (auto simp: auth_login_verify_2fa_def login_success_def token_given_verified)
  have failed: "token (auth_login_verify_2fa w JWT_SECRET tt c st) = None \<longrightarrow>
      status (auth_login_verify_2fa w JWT_SECRET tt c st) \<in> {400, 404, 500}
    \<and> tempToken (auth_login_verify_2fa w JWT_SECRET tt c st) = None
    \<and> body_user (auth_login_verify_2fa w JWT_SECRET tt c st) = None"
    by (auto simp: auth_login_verify_2fa_def respond_def respond_error_def login_success_def
        split: option.splits sum.splits if_splits)
  from login only issued failed show ?thesis by blast
qed

theorem two_factor_login_witness:
  "status (auth_login sample_world None ''a@x.com'' ''secret1'' sample_state) = 200
   \<and> token (auth_login sample_world None ''a@x.com'' ''secret1'' sample_state) = None
   \<and> tempToken (auth_login sample_world None ''a@x.com'' ''secret1'' sample_state) = Some sample_token
   \<and> token (auth_login_verify_2fa sample_world None (Some sample_token) (Some ''492039'') sample_state) =
       Some (jwt_sign (user_claims sample_user) ''121212'' ttl_24h 1000)
   \<and> auth_login_verify_2fa sample_world None (Some sample_token) (Some ''000000'') sample_state =
       respond 400 ''Invalid verification code''"
proof -
  have found: "User_findOne_email sample_state ''a@x.com'' = Some sample_user"
    by (simp add: User_findOne_email_def sample_setters sample_state_def sample_user_def)
  have password: "bcrypt_compare sample_world ''secret1'' (u_password sample_user)"
    by (simp add: sample_world_def sample_user_def)
  have enabled: "u_twoFactorEnabled sample_user"
    by (simp add: sample_user_def)
  have verified: "jwt_verify sample_token (signing_key None) (clock sample_world) =
      Inr \<lparr> userId = Some ''65f000000000000000000001'', studentId = None, role = Some ''admin'',
            email = Some ''a@x.com'', requires2FA = Some True, iat = 1000, exp = Some 1300 \<rparr>"
    by (simp add: sample_token_def sample_claims_def jwt_sign_def jwt_verify_def ttl_5m_def
          signing_key_def sample_world_def)
  have byId: "User_findById sample_state (Some ''65f000000000000000000001'') = Some sample_user"
    by (simp add: User_findById_def sample_state_def sample_user_def)
  have code: "totp_verify sample_world (u_twoFactorSecret sample_user) ''492039'' = Inr True"
    by (simp add: sample_world_def sample_user_def)
  have wrong: "auth_login_verify_2fa sample_world None (Some sample_token) (Some ''000000'') sample_state =
       respond 400 ''Invalid verification code''"
    using verified byId
    by (simp add: auth_login_verify_2fa_def token_given_verified sample_world_def sample_user_def)
  show ?thesis
    using two_factor_login [of sample_state "''a@x.com''" sample_user sample_world "''secret1''" None
        "Some sample_token" "Some ''492039''" sample_token
        "\<lparr> userId = Some ''65f000000000000000000001'', studentId = None, role = Some ''admin'',
           email = Some ''a@x.com'', requires2FA = Some True, iat = 1000, exp = Some 1300 \<rparr>"
        sample_user "''492039''"]
      found password enabled verified byId code wrong
    by (simp add: sample_token_def sample_claims_def jwt_sign_def ttl_5m_def signing_key_def
          sample_user_def sample_world_def)
qed

section \<open>Student login\<close>

text \<open>
  Claim C10. A student whose stored status is not \<^verbatim>\<open>Enrolled\<close> and who logs in
  with the right email and password is answered 403, with the status and no
  token; a token comes out of the student login only for a student whose status
  is \<^verbatim>\<open>Enrolled\<close>, and such a student gets one.
\<close>

theorem student_login_needs_enrolled:
  "(Student_findOne_email st e = Some s \<and> bcrypt_compare w p (s_password s)
      \<and> s_status s \<noteq> ''Enrolled'' \<longrightarrow>
      status (student_login w JWT_SECRET e p st) = 403
    \<and> token (student_login w JWT_SECRET e p st) = None
    \<and> tempToken (student_login w JWT_SECRET e p st) = None
    \<and> body_session (student_login w JWT_SECRET e p st) = None
    \<and> body_status (student_login w JWT_SECRET e p st) = Some (s_status s))
 \<and> (token (student_login w JWT_SECRET e p st) \<noteq> None \<longrightarrow>
      (\<exists>s'. Student_findOne_email st e = Some s' \<and> bcrypt_compare w p (s_password s')
          \<and> s_status s' = ''Enrolled''))
 \<and> (Student_findOne_email st e = Some s \<and> bcrypt_compare w p (s_password s)
      \<and> s_status s = ''Enrolled'' \<longrightarrow>
      status (student_login w JWT_SECRET e p st) = 200
    \<and> token (student_login w JWT_SECRET e p st) =
        Some (jwt_sign (student_claims s) (signing_key JWT_SECRET) ttl_24h (clock w)))"
  by (auto simp: student_login_def canAccessAccount_def respond_def
      split: option.splits if_splits)

theorem student_login_needs_enrolled_witness:
  "status (student_login sample_world None ''b@x.com'' ''secret2'' sample_state) = 403
   \<and> token (student_login sample_world None ''b@x.com'' ''secret2'' sample_state) = None
   \<and> body_status (student_login sample_world None ''b@x.com'' ''secret2'' sample_state) =
       Some ''Pending''
   \<and> token (student_login sample_world None ''b@x.com'' ''secret2''
        (sample_state \<lparr> students := [sample_student \<lparr> s_status := ''Enrolled'' \<rparr>] \<rparr>)) =
     Some (jwt_sign (student_claims sample_student) ''121212'' ttl_24h 1000)"
proof -
  have found: "Student_findOne_email sample_state ''b@x.com'' = Some sample_student"
    by (simp add: Student_findOne_email_def sample_setters sample_state_def sample_student_def)
  have found': "Student_findOne_email (sample_state \<lparr> students := [sample_student \<lparr> s_status := ''Enrolled'' \<rparr>] \<rparr>)
      ''b@x.com'' = Some (sample_student \<lparr> s_status := ''Enrolled'' \<rparr>)"
    by (simp add: Student_findOne_email_def sample_setters sample_state_def sample_student_def)
  have password: "bcrypt_compare sample_world ''secret2'' (s_password sample_student)"
    by (simp add: sample_world_def sample_student_def)
  have pending: "s_status sample_student = ''Pending''"
    by (simp add: sample_student_def)
  show ?thesis
    using student_login_needs_enrolled [of sample_state "''b@x.com''" sample_student sample_world
        "''secret2''" None]
      student_login_needs_enrolled [of "sample_state \<lparr> students := [sample_student \<lparr> s_status := ''Enrolled'' \<rparr>] \<rparr>"
        "''b@x.com''" "sample_student \<lparr> s_status := ''Enrolled'' \<rparr>" sample_world "''secret2''" None]
      found found' password pending
    by (simp add: student_claims_def signing_key_def sample_world_def)
qed

section \<open>The signing key\<close>










section \<open>Registration: the duplicate check\<close>

lemma user_duplicate_answer:
  assumes "parse_if_string w (rb_expertise b) = Inr pe"
    and "parse_if_string w (rb_languages b) = Inr pl"
    and "parse_if_string w (rb_location b) = Inr po"
    and "User_findOne_email_or_cnic st (rb_email b) (rb_cnic b) = Some existingUser"
  shows "auth_register w JWT_SECRET b st =
           (respond 400 (if u_email existingUser = rb_email b then ''Email already registered''
                         else ''CNIC already registered''), st)"
  using assms by (simp add: auth_register_def auth_register_try_def)

lemma student_duplicate_answer:
  assumes "fst (parse_courses w (sb_enrolledCourses b)) = Continue cs"
    and "Student_findOne_email_or_cnic st (sb_email b) (sb_cnic b) = Some existingStudent"
  shows "map_option fst (student_register w ic b st) =
           Some (respond 400 (if s_email existingStudent = sb_email b
                              then ''Email already registered''
                              else ''CNIC already registered''))"
proof -
  obtain pa ls1 where pa: "parse_address w (sb_address b) = (pa, ls1)"
    by (cases "parse_address w (sb_address b)") blast
  obtain ls2 where pc: "parse_courses w (sb_enrolledCourses b) = (Continue cs, ls2)"
    using assms(1) by (cases "parse_courses w (sb_enrolledCourses b)") auto
  from pa pc assms(2) show ?thesis
    by (simp add: student_register_def student_register_save_def)
qed

text \<open>
  Claim C5. The duplicate check finds the existing principal by the email as the
  schema stores it, lowercased and trimmed, and then names the field by comparing
  the stored email with the email as submitted. A registration with the email
  \<^verbatim>\<open>A@x.com\<close> and a CNIC nobody holds, when a user holds \<^verbatim>\<open>a@x.com\<close>, is rejected
  and nothing is stored, but the answer names the CNIC, which did not collide; so
  for a student registration with \<^verbatim>\<open>B@X.COM\<close> when a student holds \<^verbatim>\<open>b@x.com\<close>.
\<close>

theorem duplicate_email_named_cnic:
  "email_setters ''A@x.com'' \<in> u_email ` set (users sample_state)
   \<and> rb_cnic (sample_register_body \<lparr> rb_email := ''A@x.com'' \<rparr>)
       \<notin> u_cnic ` set (users sample_state)
   \<and> auth_register sample_world None (sample_register_body \<lparr> rb_email := ''A@x.com'' \<rparr>)
        sample_state =
     (respond 400 ''CNIC already registered'', sample_state)
   \<and> email_setters ''B@X.COM'' \<in> s_email ` set (students sample_state)
   \<and> sb_cnic (sample_student_body \<lparr> sb_email := ''B@X.COM'' \<rparr>)
       \<notin> s_cnic ` set (students sample_state)
   \<and> map_option fst (student_register sample_world sample_idcard_world
        (sample_student_body \<lparr> sb_email := ''B@X.COM'' \<rparr>) sample_state) =
     Some (respond 400 ''CNIC already registered'')"
proof -
  have held: "email_setters ''A@x.com'' \<in> u_email ` set (users sample_state)"
    "rb_cnic (sample_register_body \<lparr> rb_email := ''A@x.com'' \<rparr>)
       \<notin> u_cnic ` set (users sample_state)"
    "email_setters ''B@X.COM'' \<in> s_email ` set (students sample_state)"
    "sb_cnic (sample_student_body \<lparr> sb_email := ''B@X.COM'' \<rparr>)
       \<notin> s_cnic ` set (students sample_state)"
    by (simp_all add: sample_setters sample_state_def sample_user_def sample_student_def
          sample_register_body_def sample_student_body_def)
  have parsed: "parse_if_string sample_world
        (rb_expertise (sample_register_body \<lparr> rb_email := ''A@x.com'' \<rparr>)) = Inr None"
    "parse_if_string sample_world
        (rb_languages (sample_register_body \<lparr> rb_email := ''A@x.com'' \<rparr>)) = Inr None"
    "parse_if_string sample_world
        (rb_location (sample_register_body \<lparr> rb_email := ''A@x.com'' \<rparr>)) = Inr None"
    by (simp_all add: parse_if_string_def sample_register_body_def)
  have found: "User_findOne_email_or_cnic sample_state
        (rb_email (sample_register_body \<lparr> rb_email := ''A@x.com'' \<rparr>))
        (rb_cnic (sample_register_body \<lparr> rb_email := ''A@x.com'' \<rparr>)) = Some sample_user"
    by (simp add: User_findOne_email_or_cnic_def sample_setters sample_state_def sample_user_def)
  have user: "auth_register sample_world None (sample_register_body \<lparr> rb_email := ''A@x.com'' \<rparr>)
        sample_state = (respond 400 ''CNIC already registered'', sample_state)"
    using user_duplicate_answer [OF parsed found, of None]
    by (simp add: sample_user_def)
  have courses: "fst (parse_courses sample_world
        (sb_enrolledCourses (sample_student_body \<lparr> sb_email := ''B@X.COM'' \<rparr>))) = Continue []"
    by (simp add: parse_courses_def sample_student_body_def)
  have found': "Student_findOne_email_or_cnic sample_state
        (sb_email (sample_student_body \<lparr> sb_email := ''B@X.COM'' \<rparr>))
        (sb_cnic (sample_student_body \<lparr> sb_email := ''B@X.COM'' \<rparr>)) = Some sample_student"
    by (simp add: Student_findOne_email_or_cnic_def sample_setters sample_state_def sample_student_def)
  have student: "map_option fst (student_register sample_world sample_idcard_world
        (sample_student_body \<lparr> sb_email := ''B@X.COM'' \<rparr>) sample_state) =
      Some (respond 400 ''CNIC already registered'')"
    using student_duplicate_answer [OF courses found', of sample_idcard_world]
    by (simp add: sample_student_def)
  from held user student show ?thesis by simp
qed

section \<open>Registration: the picture\<close>

lemma parse_courses_Sent:
  assumes "parse_courses w x = (Sent r, ls)"
  shows "status r = 400 \<and> body_student r = None"
  using assms
  by (auto simp: parse_courses_def courses_try_def respond_def
      split: option.splits if_splits step.splits sum.splits json.splits)

lemma picture_block_upload_fails:
  assumes "fst (uploadToCloudinary_student w f) = Inl e"
  shows "\<exists>ls. picture_block w (Some f) = (Inl e, ls)"
  using assms by (cases "uploadToCloudinary_student w f") (auto simp: picture_block_def)

lemma user_upload_fails:
  assumes "rb_file b = Some f" and "fst (uploadToCloudinary_user w f) = Inl e"
  shows "status (fst (auth_register w JWT_SECRET b st)) \<in> {400, 500}
       \<and> token (fst (auth_register w JWT_SECRET b st)) = None
       \<and> body_user (fst (auth_register w JWT_SECRET b st)) = None
       \<and> users (snd (auth_register w JWT_SECRET b st)) = users st
       \<and> students (snd (auth_register w JWT_SECRET b st)) = students st"
  using assms
  by (cases "uploadToCloudinary_user w f")
     (auto simp: auth_register_def auth_register_try_def respond_def respond_error_def logged_def
      split: sum.splits option.splits)

lemma user_upload_fails_500:
  assumes "rb_file b = Some f" and "fst (uploadToCloudinary_user w f) = Inl e"
    and "parse_if_string w (rb_expertise b) = Inr pe"
    and "parse_if_string w (rb_languages b) = Inr pl"
    and "parse_if_string w (rb_location b) = Inr po"
    and "User_findOne_email_or_cnic st (rb_email b) (rb_cnic b) = None"
  shows "fst (auth_register w JWT_SECRET b st) = respond_error 500 ''Error registering user'' e"
  using assms
  by (cases "uploadToCloudinary_user w f")
     (auto simp: auth_register_def auth_register_try_def)

lemma student_upload_fails:
  assumes "sb_file b = Some f" and "fst (uploadToCloudinary_student w f) = Inl e"
  shows "\<exists>r st'. student_register w ic b st = Some (r, st')
       \<and> status r \<in> {400, 500} \<and> token r = None \<and> body_student r = None
       \<and> users st' = users st \<and> students st' = students st"
proof -
  obtain pa ls1 where pa: "parse_address w (sb_address b) = (pa, ls1)"
    by (cases "parse_address w (sb_address b)") blast
  obtain x ls2 where pc: "parse_courses w (sb_enrolledCourses b) = (x, ls2)"
    by (cases "parse_courses w (sb_enrolledCourses b)") blast
  from picture_block_upload_fails [OF assms(2)] obtain ls3 where
    pb: "picture_block w (sb_file b) = (Inl e, ls3)" using assms(1) by auto
  show ?thesis
  proof (cases x)
    case (Threw e')
    with pa pc show ?thesis
      by (simp add: student_register_def student_register_save_def logged_def respond_error_def
            respond_def)
  next
    case (Sent r)
    with pc have "status r = 400 \<and> body_student r = None" by (simp add: parse_courses_Sent)
    moreover from Sent pc have "token r = None"
      by (auto simp: parse_courses_def courses_try_def respond_def
          split: option.splits if_splits step.splits sum.splits json.splits)
    ultimately show ?thesis using Sent pa pc
      by (simp add: student_register_def student_register_save_def logged_def)
  next
    case (Continue cs)
    with pa pc pb show ?thesis
      by (cases "Student_findOne_email_or_cnic st (sb_email b) (sb_cnic b)")
         (simp_all add: student_register_def student_register_save_def logged_def
            respond_error_def respond_def)
  qed
qed

lemma student_upload_fails_500:
  assumes "sb_file b = Some f" and "fst (uploadToCloudinary_student w f) = Inl e"
    and "fst (parse_courses w (sb_enrolledCourses b)) = Continue cs"
    and "Student_findOne_email_or_cnic st (sb_email b) (sb_cnic b) = None"
  shows "map_option fst (student_register w ic b st) =
           Some (respond_error 500 ''Error registering student'' e)"
proof -
  obtain pa ls1 where pa: "parse_address w (sb_address b) = (pa, ls1)"
    by (cases "parse_address w (sb_address b)") blast
  obtain ls2 where pc: "parse_courses w (sb_enrolledCourses b) = (Continue cs, ls2)"
    using assms(3) by (cases "parse_courses w (sb_enrolledCourses b)") auto
  from picture_block_upload_fails [OF assms(2)] obtain ls3 where
    pb: "picture_block w (sb_file b) = (Inl e, ls3)" using assms(1) by auto
  from pa pc pb assms(4) show ?thesis
    by (simp add: student_register_def student_register_save_def)
qed

text \<open>
  Claim C8. A registration that came with an image file and whose upload fails
  is answered with an error (400 or 500), issues no token and creates no record:
  the collections are as they were. When the registration gets as far as the
  upload, the answer is the 500 of the handler with the upload's error. So for the
  user registration and for the student registration.
\<close>

theorem upload_failure_fails_registration:
  "(rb_file b = Some f \<and> fst (uploadToCloudinary_user w f) = Inl e \<longrightarrow>
      status (fst (auth_register w JWT_SECRET b st)) \<in> {400, 500}
    \<and> token (fst (auth_register w JWT_SECRET b st)) = None
    \<and> body_user (fst (auth_register w JWT_SECRET b st)) = None
    \<and> users (snd (auth_register w JWT_SECRET b st)) = users st
    \<and> students (snd (auth_register w JWT_SECRET b st)) = students st)
 \<and> (rb_file b = Some f \<and> fst (uploadToCloudinary_user w f) = Inl e
      \<and> parse_if_string w (rb_expertise b) = Inr pe
      \<and> parse_if_string w (rb_languages b) = Inr pl
      \<and> parse_if_string w (rb_location b) = Inr po
      \<and> User_findOne_email_or_cnic st (rb_email b) (rb_cnic b) = None \<longrightarrow>
      fst (auth_register w JWT_SECRET b st) = respond_error 500 ''Error registering user'' e)
 \<and> (sb_file sb = Some f' \<and> fst (uploadToCloudinary_student w f') = Inl e' \<longrightarrow>
      (\<exists>r st'. student_register w ic sb st = Some (r, st')
         \<and> status r \<in> {400, 500} \<and> token r = None \<and> body_student r = None
         \<and> users st' = users st \<and> students st' = students st))
 \<and> (sb_file sb = Some f' \<and> fst (uploadToCloudinary_student w f') = Inl e'
      \<and> fst (parse_courses w (sb_enrolledCourses sb)) = Continue cs
      \<and> Student_findOne_email_or_cnic st (sb_email sb) (sb_cnic sb) = None \<longrightarrow>
      map_option fst (student_register w ic sb st) =
        Some (respond_error 500 ''Error registering student'' e'))"
  using user_upload_fails [of b f w e JWT_SECRET st]
    user_upload_fails_500 [of b f w e pe pl po st JWT_SECRET]
    student_upload_fails [of sb f' w e' ic st]
    student_upload_fails_500 [of sb f' w e' cs st ic]
  by blast

theorem upload_failure_fails_registration_witness:
  "fst (auth_register sample_world None
          (sample_register_body \<lparr> rb_email := ''d@x.com'', rb_file := Some sample_file \<rparr>)
          sample_state) =
     respond_error 500 ''Error registering user''
       (new_Error ''Error uploading image to Cloudinary: Request Timeout'')
   \<and> users (snd (auth_register sample_world None
          (sample_register_body \<lparr> rb_email := ''d@x.com'', rb_file := Some sample_file \<rparr>)
          sample_state)) = [sample_user]
   \<and> map_option fst (student_register sample_world sample_idcard_world
          (sample_student_body \<lparr> sb_file := Some sample_file \<rparr>) sample_state) =
     Some (respond_error 500 ''Error registering student''
       (new_Error ''Image upload timed out. Please try with a smaller image or check your network connection.''))"
proof -
  have attached: "rb_file (sample_register_body \<lparr> rb_email := ''d@x.com'', rb_file := Some sample_file \<rparr>)
      = Some sample_file"
    "sb_file (sample_student_body \<lparr> sb_file := Some sample_file \<rparr>) = Some sample_file"
    by simp_all
  have upload: "fst (uploadToCloudinary_user sample_world sample_file) =
      Inl (new_Error ''Error uploading image to Cloudinary: Request Timeout'')"
    by (simp add: uploadToCloudinary_user_def upload_attempt_def sample_world_def sample_file_def)
  have upload': "fst (uploadToCloudinary_student sample_world sample_file) =
      Inl (new_Error ''Image upload timed out. Please try with a smaller image or check your network connection.'')"
    by (simp add: uploadToCloudinary_student_def upload_attempt_def sample_world_def
          sample_file_def)
  have parsed: "parse_if_string sample_world
        (rb_expertise (sample_register_body \<lparr> rb_email := ''d@x.com'', rb_file := Some sample_file \<rparr>)) = Inr None"
    "parse_if_string sample_world
        (rb_languages (sample_register_body \<lparr> rb_email := ''d@x.com'', rb_file := Some sample_file \<rparr>)) = Inr None"
    "parse_if_string sample_world
        (rb_location (sample_register_body \<lparr> rb_email := ''d@x.com'', rb_file := Some sample_file \<rparr>)) = Inr None"
    by (simp_all add: parse_if_string_def sample_register_body_def)
  have fresh: "User_findOne_email_or_cnic sample_state
        (rb_email (sample_register_body \<lparr> rb_email := ''d@x.com'', rb_file := Some sample_file \<rparr>))
        (rb_cnic (sample_register_body \<lparr> rb_email := ''d@x.com'', rb_file := Some sample_file \<rparr>)) = None"
    by (simp add: User_findOne_email_or_cnic_def sample_setters sample_state_def sample_user_def
          sample_register_body_def)
  have courses: "fst (parse_courses sample_world
        (sb_enrolledCourses (sample_student_body \<lparr> sb_file := Some sample_file \<rparr>))) = Continue []"
    by (simp add: parse_courses_def sample_student_body_def)
  have fresh': "Student_findOne_email_or_cnic sample_state
        (sb_email (sample_student_body \<lparr> sb_file := Some sample_file \<rparr>))
        (sb_cnic (sample_student_body \<lparr> sb_file := Some sample_file \<rparr>)) = None"
    by (simp add: Student_findOne_email_or_cnic_def sample_setters sample_state_def sample_student_def
          sample_student_body_def)
  have stored: "users sample_state = [sample_user]"
    by (simp add: sample_state_def)
  show ?thesis
    using upload_failure_fails_registration [where w = sample_world and st = sample_state
        and b = "sample_register_body \<lparr> rb_email := ''d@x.com'', rb_file := Some sample_file \<rparr>"
        and f = sample_file and f' = sample_file
        and e = "new_Error ''Error uploading image to Cloudinary: Request Timeout''"
        and e' = "new_Error ''Image upload timed out. Please try with a smaller image or check your network connection.''"
        and pe = None and pl = None and po = None and cs = "[]"
        and sb = "sample_student_body \<lparr> sb_file := Some sample_file \<rparr>"
        and JWT_SECRET = None and ic = sample_idcard_world]
      attached upload upload' parsed fresh courses fresh' stored
    by simp
qed

section \<open>Student registration: the save, the ID card and the address\<close>

lemma Student_save_new_stores:
  assumes "Student_save_new w s st = Some (Inr (s', st'))"
  shows "students st' = students st @ [s'] \<and> users st' = users st
       \<and> s_address s' = s_address s \<and> s_status s' = s_status s"
  using assms
  by (auto simp: Student_save_new_def Let_def split: option.splits if_splits)

lemma Student_save_new_logged:
  "Student_save_new w s (logged ls st) =
     map_option (map_sum id (\<lambda>(s', st'). (s', logged ls st'))) (Student_save_new w s st)"
  by (auto simp: Student_save_new_def logged_def Let_def split: option.splits)

lemma student_register_save_Continue:
  assumes "student_register_save w b st = Some (Continue s, st')"
  shows "students st' = students st @ [s] \<and> users st' = users st
       \<and> s_address s = fst (parse_address w (sb_address b)) \<and> s_status s = ''Pending''"
proof -
  obtain pa ls1 where pa: "parse_address w (sb_address b) = (pa, ls1)"
    by (cases "parse_address w (sb_address b)") blast
  from assms pa obtain cs url ls where
    saved: "Student_save_new w (new_Student w b pa cs url) (logged ls st) = Some (Inr (s, st'))"
    by (auto simp: student_register_save_def
        split: prod.splits step.splits option.splits sum.splits)
  from Student_save_new_stores [OF saved] pa show ?thesis
    by (simp add: logged_def new_Student_def)
qed

lemma student_register_save_Sent:
  assumes "student_register_save w b st = Some (Sent r, st')"
  shows "status r = 400"
  using assms
  by (auto simp: student_register_save_def parse_courses_Sent status_respond
      split: prod.splits step.splits option.splits sum.splits)

lemma student_register_finish_outcome:
  "outcome (student_register_finish ic s st) = (registered s, users st, students st)"
  by (simp add: student_register_finish_def outcome_def logged_def split: prod.splits)

lemma student_register_finish_logs:
  assumes "fst (id_card_block ic s) \<noteq> None"
  shows "''Error generating/sending ID card:'' \<in> set (console (snd (student_register_finish ic s st)))"
  using assms
  by (cases "id_card_block ic s") (auto simp: student_register_finish_def logged_def)

lemma id_card_block_throws:
  "(fst (id_card_block ic s) = None) =
     (pdf_layout ic s = None
      \<and> (\<exists>buf. pdf_output ic = Inr buf \<and> createTransport ic = None
            \<and> transporter_verify ic = None
            \<and> transporter_sendMail ic
                 \<lparr> mail_to = s_email s,
                   mail_subject = ''Welcome to Aaghaaz Tech - Your Student ID Card'',
                   mail_attachment = buf \<rparr> = None))"
  by (auto simp: id_card_block_def Let_def split: option.splits sum.splits)

lemma student_register_same_outcome:
  "map_option outcome (student_register w ic b st) =
     map_option outcome (student_register w ic' b st)"
proof (cases "student_register_save w b st")
  case None
  then show ?thesis by (simp add: student_register_def)
next
  case (Some x)
  obtain y st' where x: "x = (y, st')" by (cases x) blast
  show ?thesis
    using Some x
    by (cases y) (simp_all add: student_register_def student_register_finish_outcome)
qed

lemma student_register_finish_console:
  "console (snd (student_register_finish ic s st)) =
     console st @ snd (id_card_block ic s)
       @ (case fst (id_card_block ic s) of
            Some e \<Rightarrow> [''Error generating/sending ID card:'']
          | None \<Rightarrow> [])
       @ [''student'']"
  by (cases "id_card_block ic s") (simp add: student_register_finish_def logged_def)

lemma id_card_block_lines:
  "(pdf_layout ic s = None \<and> QRCode_toDataURL ic (qrData s) = Inl e1 \<longrightarrow>
      ''Error generating QR code:'' \<in> set (snd (id_card_block ic s)))
 \<and> (pdf_layout ic s = None \<and> QRCode_toDataURL ic (qrData s) = Inr url
      \<and> pdf_addImage ic url = Some e2 \<longrightarrow>
      ''Error generating QR code:'' \<in> set (snd (id_card_block ic s)))
 \<and> (pdf_layout ic s = None \<and> pdf_output ic = Inr buf \<and> createTransport ic = None
      \<and> transporter_verify ic = Some e3 \<longrightarrow>
      ''SMTP connection verification failed:'' \<in> set (snd (id_card_block ic s)))
 \<and> (pdf_layout ic s = None \<and> pdf_output ic = Inr buf \<and> createTransport ic = None
      \<and> transporter_verify ic = None
      \<and> transporter_sendMail ic
           \<lparr> mail_to = s_email s,
             mail_subject = ''Welcome to Aaghaaz Tech - Your Student ID Card'',
             mail_attachment = buf \<rparr> = Some e4 \<longrightarrow>
      ''Error sending email:'' \<in> set (snd (id_card_block ic s)))"
  by (auto simp: id_card_block_def qr_block_def Let_def split: option.splits sum.splits)

lemma student_register_saved:
  assumes "student_register_save w b st = Some (Continue s, st1)"
  shows "\<exists>st2. student_register w ic b st = Some (registered s, st2)
       \<and> students st2 = students st @ [s] \<and> users st2 = users st
       \<and> (fst (id_card_block ic s) \<noteq> None \<longrightarrow>
            ''Error generating/sending ID card:'' \<in> set (console st2))
       \<and> set (snd (id_card_block ic s)) \<subseteq> set (console st2)"
proof -
  have r: "student_register w ic b st = Some (student_register_finish ic s st1)"
    using assms by (simp add: student_register_def)
  have o: "outcome (student_register_finish ic s st1) = (registered s, users st1, students st1)"
    by (rule student_register_finish_outcome)
  have l: "set (snd (id_card_block ic s)) \<subseteq> set (console (snd (student_register_finish ic s st1)))"
    by (auto simp: student_register_finish_console)
  from student_register_save_Continue [OF assms]
  have st1: "students st1 = students st @ [s]" "users st1 = users st" by simp_all
  show ?thesis
    using r o l st1 student_register_finish_logs [of ic s st1]
    by (cases "student_register_finish ic s st1") (auto simp: outcome_def)
qed

text \<open>
  Claim C1. Whatever the collaborators of the ID-card block do (the PDF layout
  or output throwing, the QR code failing, the mail transport failing to connect
  or to send), the registration ends the same: two runs that differ only in these
  collaborators give the same response and the same collections. Once the student
  is saved the answer is the 201 with the student's view and the student stays in
  the collection. Every failure is on the console: a block that threw left the
  line of the outer catch, a QR code that failed (drawing it or adding it to the
  document) left the line of the inner catch, a transport that failed to verify or
  to send left its own line. The block throws exactly when the layout, the output,
  the transport, its verification or the sending fails.
\<close>

theorem id_card_failure_swallowed:
  "map_option outcome (student_register w ic b st) =
     map_option outcome (student_register w ic' b st)
 \<and> (student_register_save w b st = Some (Continue s, st1) \<longrightarrow>
      (\<exists>st2. student_register w ic b st = Some (registered s, st2)
         \<and> status (registered s) = 201
         \<and> body_student (registered s) = Some (student_view s)
         \<and> students st2 = students st @ [s] \<and> users st2 = users st
         \<and> (fst (id_card_block ic s) \<noteq> None \<longrightarrow>
              ''Error generating/sending ID card:'' \<in> set (console st2))
         \<and> (pdf_layout ic s = None \<and> QRCode_toDataURL ic (qrData s) = Inl e1 \<longrightarrow>
              ''Error generating QR code:'' \<in> set (console st2))
         \<and> (pdf_layout ic s = None \<and> QRCode_toDataURL ic (qrData s) = Inr url
              \<and> pdf_addImage ic url = Some e2 \<longrightarrow>
              ''Error generating QR code:'' \<in> set (console st2))
         \<and> (pdf_layout ic s = None \<and> pdf_output ic = Inr buf \<and> createTransport ic = None
              \<and> transporter_verify ic = Some e3 \<longrightarrow>
              ''SMTP connection verification failed:'' \<in> set (console st2))
         \<and> (pdf_layout ic s = None \<and> pdf_output ic = Inr buf \<and> createTransport ic = None
              \<and> transporter_verify ic = None
              \<and> transporter_sendMail ic
                   \<lparr> mail_to = s_email s,
                     mail_subject = ''Welcome to Aaghaaz Tech - Your Student ID Card'',
                     mail_attachment = buf \<rparr> = Some e4 \<longrightarrow>
              ''Error sending email:'' \<in> set (console st2))))
 \<and> (fst (id_card_block ic s) = None) =
     (pdf_layout ic s = None
      \<and> (\<exists>buf. pdf_output ic = Inr buf \<and> createTransport ic = None
            \<and> transporter_verify ic = None
            \<and> transporter_sendMail ic
                 \<lparr> mail_to = s_email s,
                   mail_subject = ''Welcome to Aaghaaz Tech - Your Student ID Card'',
                   mail_attachment = buf \<rparr> = None))"
proof -
  have same: "map_option outcome (student_register w ic b st) =
      map_option outcome (student_register w ic' b st)"
    by (rule student_register_same_outcome)
  have view: "status (registered s) = 201 \<and> body_student (registered s) = Some (student_view s)"
    by (simp add: registered_def respond_def)
  have saved: "student_register_save w b st = Some (Continue s, st1) \<longrightarrow>
      (\<exists>st2. student_register w ic b st = Some (registered s, st2)
         \<and> status (registered s) = 201
         \<and> body_student (registered s) = Some (student_view s)
         \<and> students st2 = students st @ [s] \<and> users st2 = users st
         \<and> (fst (id_card_block ic s) \<noteq> None \<longrightarrow>
              ''Error generating/sending ID card:'' \<in> set (console st2))
         \<and> (pdf_layout ic s = None \<and> QRCode_toDataURL ic (qrData s) = Inl e1 \<longrightarrow>
              ''Error generating QR code:'' \<in> set (console st2))
         \<and> (pdf_layout ic s = None \<and> QRCode_toDataURL ic (qrData s) = Inr url
              \<and> pdf_addImage ic url = Some e2 \<longrightarrow>
              ''Error generating QR code:'' \<in> set (console st2))
         \<and> (pdf_layout ic s = None \<and> pdf_output ic = Inr buf \<and> createTransport ic = None
              \<and> transporter_verify ic = Some e3 \<longrightarrow>
              ''SMTP connection verification failed:'' \<in> set (console st2))
         \<and> (pdf_layout ic s = None \<and> pdf_output ic = Inr buf \<and> createTransport ic = None
              \<and> transporter_verify ic = None
              \<and> transporter_sendMail ic
                   \<lparr> mail_to = s_email s,
                     mail_subject = ''Welcome to Aaghaaz Tech - Your Student ID Card'',
                     mail_attachment = buf \<rparr> = Some e4 \<longrightarrow>
              ''Error sending email:'' \<in> set (console st2)))"
  proof
    assume a: "student_register_save w b st = Some (Continue s, st1)"
    from student_register_saved [OF a, of ic] obtain st2 where
      st2: "student_register w ic b st = Some (registered s, st2)"
        "students st2 = students st @ [s]" "users st2 = users st"
        "fst (id_card_block ic s) \<noteq> None \<longrightarrow>
           ''Error generating/sending ID card:'' \<in> set (console st2)"
        "set (snd (id_card_block ic s)) \<subseteq> set (console st2)"
      by blast
    from st2(5) id_card_block_lines [of ic s e1 url e2 buf e3 e4]
    have lines: "(pdf_layout ic s = None \<and> QRCode_toDataURL ic (qrData s) = Inl e1 \<longrightarrow>
              ''Error generating QR code:'' \<in> set (console st2))
         \<and> (pdf_layout ic s = None \<and> QRCode_toDataURL ic (qrData s) = Inr url
              \<and> pdf_addImage ic url = Some e2 \<longrightarrow>
              ''Error generating QR code:'' \<in> set (console st2))
         \<and> (pdf_layout ic s = None \<and> pdf_output ic = Inr buf \<and> createTransport ic = None
              \<and> transporter_verify ic = Some e3 \<longrightarrow>
              ''SMTP connection verification failed:'' \<in> set (console st2))
         \<and> (pdf_layout ic s = None \<and> pdf_output ic = Inr buf \<and> createTransport ic = None
              \<and> transporter_verify ic = None
              \<and> transporter_sendMail ic
                   \<lparr> mail_to = s_email s,
                     mail_subject = ''Welcome to Aaghaaz Tech - Your Student ID Card'',
                     mail_attachment = buf \<rparr> = Some e4 \<longrightarrow>
              ''Error sending email:'' \<in> set (console st2))"
      by blast
    from st2(1-4) view lines
    show "\<exists>st2. student_register w ic b st = Some (registered s, st2)
         \<and> status (registered s) = 201
         \<and> body_student (registered s) = Some (student_view s)
         \<and> students st2 = students st @ [s] \<and> users st2 = users st
         \<and> (fst (id_card_block ic s) \<noteq> None \<longrightarrow>
              ''Error generating/sending ID card:'' \<in> set (console st2))
         \<and> (pdf_layout ic s = None \<and> QRCode_toDataURL ic (qrData s) = Inl e1 \<longrightarrow>
              ''Error generating QR code:'' \<in> set (console st2))
         \<and> (pdf_layout ic s = None \<and> QRCode_toDataURL ic (qrData s) = Inr url
              \<and> pdf_addImage ic url = Some e2 \<longrightarrow>
              ''Error generating QR code:'' \<in> set (console st2))
         \<and> (pdf_layout ic s = None \<and> pdf_output ic = Inr buf \<and> createTransport ic = None
              \<and> transporter_verify ic = Some e3 \<longrightarrow>
              ''SMTP connection verification failed:'' \<in> set (console st2))
         \<and> (pdf_layout ic s = None \<and> pdf_output ic = Inr buf \<and> createTransport ic = None
              \<and> transporter_verify ic = None
              \<and> transporter_sendMail ic
                   \<lparr> mail_to = s_email s,
                     mail_subject = ''Welcome to Aaghaaz Tech - Your Student ID Card'',
                     mail_attachment = buf \<rparr> = Some e4 \<longrightarrow>
              ''Error sending email:'' \<in> set (console st2))"
      by (intro exI [of _ st2]) simp
  qed
  from same saved id_card_block_throws [of ic s] show ?thesis by (intro conjI)
qed

theorem id_card_failure_swallowed_witness:
  "fst (id_card_block sample_idcard_world sample_saved) =
     Some (new_Error ''SMTP configuration error: connect ECONNREFUSED'')
   \<and> map_option outcome
        (student_register sample_world sample_idcard_world sample_student_body sample_state) =
     Some (registered sample_saved, [sample_user], [sample_student, sample_saved])
   \<and> status (registered sample_saved) = 201
   \<and> map_option (\<lambda>x. console (snd x))
        (student_register sample_world sample_idcard_world sample_student_body sample_state) =
     Some [''Error generating QR code:'', ''SMTP connection verification failed:'',
           ''Error generating/sending ID card:'', ''student'']"
proof -
  have saved: "student_register_save sample_world sample_student_body sample_state =
      Some (Continue sample_saved, sample_state \<lparr> students := [sample_student, sample_saved] \<rparr>)"
    by (simp add: student_register_save_def parse_address_def parse_courses_def
          Student_findOne_email_or_cnic_def picture_block_def Student_save_new_def
          sample_saved_def sample_world_def sample_student_body_def sample_state_def
          sample_student_def new_Student_def logged_def Let_def sample_setters)
  have block: "id_card_block sample_idcard_world sample_saved =
      (Some (new_Error ''SMTP configuration error: connect ECONNREFUSED''),
       [''Error generating QR code:'', ''SMTP connection verification failed:''])"
    by (simp add: id_card_block_def qr_block_def sample_idcard_world_def Let_def)
  have stored: "users sample_state = [sample_user]" "students sample_state = [sample_student]"
    "console sample_state = []"
    by (simp_all add: sample_state_def)
  have lines: "map_option (\<lambda>x. console (snd x))
        (student_register sample_world sample_idcard_world sample_student_body sample_state) =
     Some [''Error generating QR code:'', ''SMTP connection verification failed:'',
           ''Error generating/sending ID card:'', ''student'']"
    using saved block stored
    by (simp add: student_register_def student_register_finish_console)
  show ?thesis
    using id_card_failure_swallowed [where w = sample_world and ic = sample_idcard_world
        and b = sample_student_body and st = sample_state and s = sample_saved
        and ?st1.0 = "sample_state \<lparr> students := [sample_student, sample_saved] \<rparr>"]
      saved block stored lines
    by (auto simp: outcome_def)
qed

lemma student_register_save_address:
  assumes "fst (parse_address w a) = fst (parse_address w a')"
  shows "map_option (\<lambda>x. (fst x, users (snd x), students (snd x)))
           (student_register_save w (b \<lparr> sb_address := a \<rparr>) st) =
         map_option (\<lambda>x. (fst x, users (snd x), students (snd x)))
           (student_register_save w (b \<lparr> sb_address := a' \<rparr>) st)"
proof -
  obtain pa ls1 where pa: "parse_address w a = (pa, ls1)"
    by (cases "parse_address w a") blast
  with assms obtain ls1' where pa': "parse_address w a' = (pa, ls1')"
    by (cases "parse_address w a'") auto
  obtain x ls2 where pc: "parse_courses w (sb_enrolledCourses b) = (x, ls2)"
    by (cases "parse_courses w (sb_enrolledCourses b)") blast
  show ?thesis
  proof (cases x)
    case (Threw e)
    with pa pa' pc show ?thesis by (simp add: student_register_save_def students_logged users_logged new_Student_address)
  next
    case (Sent r)
    with pa pa' pc show ?thesis by (simp add: student_register_save_def students_logged users_logged new_Student_address)
  next
    case (Continue cs)
    show ?thesis
    proof (cases "Student_findOne_email_or_cnic st (sb_email b) (sb_cnic b)")
      case (Some y)
      with Continue pa pa' pc show ?thesis by (simp add: student_register_save_def students_logged users_logged new_Student_address)
    next
      case None
      obtain p ls3 where pb: "picture_block w (sb_file b) = (p, ls3)"
        by (cases "picture_block w (sb_file b)") blast
      show ?thesis
      proof (cases p)
        case (Inl e)
        with None Continue pa pa' pc pb show ?thesis by (simp add: student_register_save_def students_logged users_logged new_Student_address)
      next
        case (Inr url)
        show ?thesis
        proof (cases "Student_save_new w (new_Student w b pa cs url) st")
          case no_return: None
          with Inr None Continue pa pa' pc pb show ?thesis
            by (simp add: student_register_save_def Student_save_new_logged students_logged users_logged
                new_Student_address)
        next
          case (Some v)
          show ?thesis
          proof (cases v)
            case failed: (Inl e)
            with Some Inr None Continue pa pa' pc pb show ?thesis
              by (simp add: student_register_save_def Student_save_new_logged students_logged users_logged
                new_Student_address)
          next
            case stored: (Inr q)
            obtain s' st1 where "q = (s', st1)" by (cases q) blast
            with stored Some Inr None Continue pa pa' pc pb show ?thesis
              by (simp add: student_register_save_def Student_save_new_logged students_logged users_logged
                new_Student_address)
          qed
        qed
      qed
    qed
  qed
qed

lemma student_register_outcome_via_save:
  "map_option outcome (student_register w ic b st) =
     map_option (\<lambda>v. case fst v of
                        Threw e \<Rightarrow> (respond_error 500 ''Error registering student'' e, snd v)
                      | Sent r \<Rightarrow> (r, snd v)
                      | Continue s \<Rightarrow> (registered s, snd v))
       (map_option (\<lambda>x. (fst x, users (snd x), students (snd x))) (student_register_save w b st))"
proof (cases "student_register_save w b st")
  case None
  then show ?thesis by (simp add: student_register_def)
next
  case (Some x)
  obtain y st' where x: "x = (y, st')" by (cases x) blast
  show ?thesis
    using Some x
    by (cases y)
       (simp_all add: student_register_def outcome_def students_logged users_logged
          student_register_finish_outcome [unfolded outcome_def])
qed

lemma student_register_address:
  assumes "fst (parse_address w a) = fst (parse_address w a')"
  shows "map_option outcome (student_register w ic (b \<lparr> sb_address := a \<rparr>) st) =
         map_option outcome (student_register w ic (b \<lparr> sb_address := a' \<rparr>) st)"
  by (simp only: student_register_outcome_via_save student_register_save_address [OF assms])

lemma student_register_201:
  assumes "student_register w ic b st = Some (r, st')" and "status r = 201"
  shows "\<exists>x. r = registered x \<and> s_address x = fst (parse_address w (sb_address b))
           \<and> s_status x = ''Pending'' \<and> students st' = students st @ [x]"
proof (cases "student_register_save w b st")
  case None
  with assms(1) show ?thesis by (simp add: student_register_def)
next
  case (Some v)
  obtain y st1 where v: "v = (y, st1)" by (cases v) blast
  show ?thesis
  proof (cases y)
    case (Threw e)
    with Some v assms show ?thesis by (auto simp: student_register_def status_respond_error)
  next
    case (Sent r')
    with Some v have "status r' = 400" by (simp add: student_register_save_Sent)
    with Sent Some v assms show ?thesis by (auto simp: student_register_def)
  next
    case (Continue x)
    with Some v have saved: "student_register_save w b st = Some (Continue x, st1)" by simp
    from student_register_saved [OF saved, of ic] assms(1)
    have "r = registered x \<and> students st' = students st @ [x]" by auto
    with student_register_save_Continue [OF saved] show ?thesis by blast
  qed
qed

text \<open>
  Claim C7. A student registration whose address is a string that does not parse
  as JSON does not fail on it: the address becomes the object with empty street,
  city, state, zipCode and country, and the registration goes on exactly as it
  would had that object been sent, with the same response and the same
  collections. Where it succeeds (201), the saved student and the answer carry the
  empty address.
\<close>

theorem unparseable_address_defaults:
  assumes "JSON_parse w s = Inl e"
  shows "parse_address w (Some (JStr s)) = (Some empty_address, [''Error parsing address:''])
   \<and> empty_address =
       JObj [(''street'', JStr []), (''city'', JStr []), (''state'', JStr []),
             (''zipCode'', JStr []), (''country'', JStr [])]
   \<and> map_option outcome (student_register w ic (b \<lparr> sb_address := Some (JStr s) \<rparr>) st) =
     map_option outcome (student_register w ic (b \<lparr> sb_address := Some empty_address \<rparr>) st)
   \<and> (student_register w ic (b \<lparr> sb_address := Some (JStr s) \<rparr>) st = Some (r, st')
        \<and> status r = 201 \<longrightarrow>
       (\<exists>x. r = registered x \<and> s_address x = Some empty_address
          \<and> sv_address (student_view x) = Some empty_address
          \<and> students st' = students st @ [x]))"
proof -
  have p: "parse_address w (Some (JStr s)) = (Some empty_address, [''Error parsing address:''])"
    using assms by (simp add: parse_address_def)
  have q: "fst (parse_address w (Some empty_address)) = Some empty_address"
    by (simp add: parse_address_def empty_address_def)
  from p q have same: "fst (parse_address w (Some (JStr s))) = fst (parse_address w (Some empty_address))"
    by simp
  have ok: "student_register w ic (b \<lparr> sb_address := Some (JStr s) \<rparr>) st = Some (r, st')
        \<and> status r = 201 \<longrightarrow>
       (\<exists>x. r = registered x \<and> s_address x = Some empty_address
          \<and> sv_address (student_view x) = Some empty_address
          \<and> students st' = students st @ [x])"
  proof
    assume a: "student_register w ic (b \<lparr> sb_address := Some (JStr s) \<rparr>) st = Some (r, st')
        \<and> status r = 201"
    from student_register_201 [of w ic "b \<lparr> sb_address := Some (JStr s) \<rparr>" st r st'] a p
    obtain x where "r = registered x" "s_address x = Some empty_address"
      "students st' = students st @ [x]" by auto
    then show "\<exists>x. r = registered x \<and> s_address x = Some empty_address
          \<and> sv_address (student_view x) = Some empty_address
          \<and> students st' = students st @ [x]"
      by (auto simp: student_view_def)
  qed
  from p student_register_address [OF same] ok show ?thesis
    by (simp add: empty_address_def)
qed

theorem unparseable_address_defaults_witness:
  "map_option outcome
     (student_register sample_world sample_idcard_world
        (sample_student_body \<lparr> sb_address := Some (JStr ''{bad json'') \<rparr>) sample_state) =
     Some (registered (sample_saved \<lparr> s_address := Some empty_address \<rparr>), [sample_user],
           [sample_student, sample_saved \<lparr> s_address := Some empty_address \<rparr>])
   \<and> status (registered (sample_saved \<lparr> s_address := Some empty_address \<rparr>)) = 201
   \<and> sv_address (student_view (sample_saved \<lparr> s_address := Some empty_address \<rparr>)) =
       Some (JObj [(''street'', JStr []), (''city'', JStr []), (''state'', JStr []),
                   (''zipCode'', JStr []), (''country'', JStr [])])"
proof -
  have bad: "JSON_parse sample_world ''{bad json'' =
      Inl (Error ''SyntaxError'' ''Unexpected token in JSON'' None)"
    by (simp add: sample_world_def)
  have saved: "student_register_save sample_world
        (sample_student_body \<lparr> sb_address := Some empty_address \<rparr>) sample_state =
      Some (Continue (sample_saved \<lparr> s_address := Some empty_address \<rparr>),
            sample_state \<lparr> students := [sample_student, sample_saved \<lparr> s_address := Some empty_address \<rparr>] \<rparr>)"
    by (simp add: student_register_save_def parse_address_def parse_courses_def
          Student_findOne_email_or_cnic_def picture_block_def Student_save_new_def
          sample_saved_def sample_world_def sample_student_body_def sample_state_def
          sample_student_def new_Student_def logged_def empty_address_def Let_def sample_setters)
  have run: "map_option outcome
     (student_register sample_world sample_idcard_world
        (sample_student_body \<lparr> sb_address := Some empty_address \<rparr>) sample_state) =
     Some (registered (sample_saved \<lparr> s_address := Some empty_address \<rparr>), [sample_user],
           [sample_student, sample_saved \<lparr> s_address := Some empty_address \<rparr>])"
    using saved
    by (simp add: student_register_def student_register_finish_outcome sample_state_def)
  have same: "map_option outcome
     (student_register sample_world sample_idcard_world
        (sample_student_body \<lparr> sb_address := Some (JStr ''{bad json'') \<rparr>) sample_state) =
     map_option outcome
     (student_register sample_world sample_idcard_world
        (sample_student_body \<lparr> sb_address := Some empty_address \<rparr>) sample_state)"
    using unparseable_address_defaults [OF bad, of sample_idcard_world sample_student_body
        sample_state]
    by blast
  have created: "status (registered (sample_saved \<lparr> s_address := Some empty_address \<rparr>)) = 201"
    by (simp add: registered_def respond_def)
  have empty: "sv_address (student_view (sample_saved \<lparr> s_address := Some empty_address \<rparr>)) =
       Some (JObj [(''street'', JStr []), (''city'', JStr []), (''state'', JStr []),
                   (''zipCode'', JStr []), (''country'', JStr [])])"
    by (simp add: student_view_def empty_address_def)
  from same run created empty show ?thesis
    by simp
qed

end
